theory Spec2Isabelle
  imports Complex_Main "HOL-Library.Sublist"
begin

section \<open>Values, dictionaries and exceptions\<close>

text \<open>
  The program is \<^verbatim>\<open>src/fundamentals.py\<close>. A field of the provider's company profile, and
  an entry of the metrics dictionary built from it, is a Python scalar: \<^verbatim>\<open>None\<close>, a
  string, or a number. A finite number (an \<^verbatim>\<open>int\<close> or a finite \<^verbatim>\<open>float\<close>) is modelled
  by the rational it denotes; the three non-finite floats are separate constructors.
  An integer literal of the source denotes itself. A float literal denotes the float64
  nearest to the decimal written, which is the number Python compares against:
  \<^verbatim>\<open>1.5\<close>, \<^verbatim>\<open>0.75\<close>, \<^verbatim>\<open>0.5\<close> and \<^verbatim>\<open>2.5\<close> are floats themselves, the other literals
  are not, and their floats are the constants below. Python compares two numbers,
  whether \<^verbatim>\<open>int\<close> or \<^verbatim>\<open>float\<close>, by their exact values, so the comparisons of the model
  are those of the program.
\<close>

datatype pyval = PNone | PStr string | PNum rat | PNaN | PPosInf | PNegInf

text \<open>
  \<open>float64_of d m k\<close>: the float with mantissa \<open>m\<close> (53 bits) and value \<open>m / 2 ^ k\<close> lies
  less than half a unit in the last place from the decimal \<open>d\<close>, so it is the float that
  the literal \<open>d\<close> denotes.
\<close>

definition float64_of :: "rat \<Rightarrow> int \<Rightarrow> nat \<Rightarrow> bool" where
  "float64_of d m k \<longleftrightarrow>
     2 ^ 52 \<le> m \<and> m < 2 ^ 53 \<and> \<bar>of_int m / 2 ^ k - d\<bar> < 1 / 2 ^ (k + 1)"

definition float_0_02 :: rat where
  "float_0_02 = 5764607523034235 / 2 ^ 58"

definition float_0_03 :: rat where
  "float_0_03 = 8646911284551352 / 2 ^ 58"

definition float_0_07 :: rat where
  "float_0_07 = 5044031582654956 / 2 ^ 56"

definition float_0_1 :: rat where
  "float_0_1 = 7205759403792794 / 2 ^ 56"

definition float_0_12 :: rat where
  "float_0_12 = 8646911284551352 / 2 ^ 56"

definition float_0_15 :: rat where
  "float_0_15 = 5404319552844595 / 2 ^ 55"

definition float_0_2 :: rat where
  "float_0_2 = 7205759403792794 / 2 ^ 55"

definition float_0_8 :: rat where
  "float_0_8 = 7205759403792794 / 2 ^ 53"

definition float_1_2 :: rat where
  "float_1_2 = 5404319552844595 / 2 ^ 52"

text \<open>The exceptions the scoring and extraction code can raise.\<close>

datatype error = KeyError string | TypeError

type_synonym pydict = "string \<rightharpoonup> pyval"

definition bind_err :: "'e + 'a \<Rightarrow> ('a \<Rightarrow> 'e + 'b) \<Rightarrow> 'e + 'b" where
  "bind_err m f = (case m of Inl e \<Rightarrow> Inl e | Inr v \<Rightarrow> f v)"

text \<open>\<^verbatim>\<open>metrics[k]\<close>: a missing key raises \<^verbatim>\<open>KeyError\<close>.\<close>

definition getitem :: "pydict \<Rightarrow> string \<Rightarrow> error + pyval" where
  "getitem d k = (case d k of None \<Rightarrow> Inl (KeyError k) | Some v \<Rightarrow> Inr v)"

text \<open>
  \<^verbatim>\<open>c < v\<close> and \<^verbatim>\<open>v < c\<close> for a numeric literal \<^verbatim>\<open>c\<close>: ordering a number against
  \<^verbatim>\<open>None\<close> or a string raises \<^verbatim>\<open>TypeError\<close>, every comparison with NaN is false.
\<close>

fun lit_lt :: "rat \<Rightarrow> pyval \<Rightarrow> error + bool" where
  "lit_lt c (PNum x) = Inr (c < x)"
| "lit_lt c PPosInf = Inr True"
| "lit_lt c PNegInf = Inr False"
| "lit_lt c PNaN = Inr False"
| "lit_lt c PNone = Inl TypeError"
| "lit_lt c (PStr s) = Inl TypeError"

fun lt_lit :: "pyval \<Rightarrow> rat \<Rightarrow> error + bool" where
  "lt_lit (PNum x) c = Inr (x < c)"
| "lt_lit PPosInf c = Inr False"
| "lt_lit PNegInf c = Inr True"
| "lt_lit PNaN c = Inr False"
| "lt_lit PNone c = Inl TypeError"
| "lt_lit (PStr s) c = Inl TypeError"

text \<open>\<^verbatim>\<open>v > c\<close>.\<close>

definition gt_lit :: "pyval \<Rightarrow> rat \<Rightarrow> error + bool" where
  "gt_lit v c = lit_lt c v"

text \<open>
  The chained comparison \<^verbatim>\<open>a < v < b\<close>: \<^verbatim>\<open>v\<close> is evaluated once, and \<^verbatim>\<open>v < b\<close> only
  when \<^verbatim>\<open>a < v\<close> holds.
\<close>

definition between :: "rat \<Rightarrow> pyval \<Rightarrow> rat \<Rightarrow> error + bool" where
  "between a v b = bind_err (lit_lt a v) (\<lambda>t. if t then lt_lit v b else Inr False)"

section \<open>The scorer: \<^verbatim>\<open>evaluate_stock\<close>\<close>

text \<open>The locals \<^verbatim>\<open>score\<close>, \<^verbatim>\<open>reasons\<close> and \<^verbatim>\<open>concerns\<close> that the function updates.\<close>

record evaluation =
  score :: int
  reasons :: "string list"
  concerns :: "string list"

definition max_score :: int where
  "max_score = 12"

text \<open>
  The body of \<^verbatim>\<open>evaluate_stock\<close> is twelve \<^verbatim>\<open>if\<close> statements in a row. Each one is a
  function from the locals before it to the locals after it, or to the exception that
  a lookup or a comparison in its condition raises.
\<close>

subsection \<open>Valuation criteria\<close>

definition check_pe_ratio :: "pydict \<Rightarrow> evaluation \<Rightarrow> error + evaluation" where
  "check_pe_ratio metrics s =
     bind_err (getitem metrics ''P/E Ratio'') (\<lambda>v.
     bind_err (between 0 v 25) (\<lambda>ok.
       if ok then
         Inr (s\<lparr>score := score s + 1,
                reasons := reasons s @ [''P/E ratio is reasonable (< 25)'']\<rparr>)
       else
         bind_err (getitem metrics ''P/E Ratio'') (\<lambda>w.
         bind_err (gt_lit w 35) (\<lambda>high.
           if high then
             Inr (s\<lparr>concerns := concerns s @
                    [''High P/E ratio indicates potential overvaluation'']\<rparr>)
           else Inr s))))"

definition check_peg_ratio :: "pydict \<Rightarrow> evaluation \<Rightarrow> error + evaluation" where
  "check_peg_ratio metrics s =
     bind_err (getitem metrics ''PEG Ratio'') (\<lambda>v.
     bind_err (between 0 v 1.5) (\<lambda>ok.
       if ok then
         Inr (s\<lparr>score := score s + 1,
                reasons := reasons s @ [''PEG ratio indicates good value (< 1.5)'']\<rparr>)
       else Inr s))"

definition check_price_book :: "pydict \<Rightarrow> evaluation \<Rightarrow> error + evaluation" where
  "check_price_book metrics s =
     bind_err (getitem metrics ''Price/Book'') (\<lambda>v.
     bind_err (between 0 v 3) (\<lambda>ok.
       if ok then
         Inr (s\<lparr>score := score s + 1,
                reasons := reasons s @ [''Price/Book ratio is attractive (< 3)'']\<rparr>)
       else Inr s))"

definition check_ev_ebitda :: "pydict \<Rightarrow> evaluation \<Rightarrow> error + evaluation" where
  "check_ev_ebitda metrics s =
     bind_err (getitem metrics ''EV/EBITDA'') (\<lambda>v.
     bind_err (between 0 v 15) (\<lambda>ok.
       if ok then
         Inr (s\<lparr>score := score s + 1,
                reasons := reasons s @
                  [''EV/EBITDA indicates reasonable valuation (< 15)'']\<rparr>)
       else Inr s))"

subsection \<open>Financial health criteria\<close>

definition check_current_ratio :: "pydict \<Rightarrow> evaluation \<Rightarrow> error + evaluation" where
  "check_current_ratio metrics s =
     bind_err (getitem metrics ''Current Ratio'') (\<lambda>v.
     bind_err (gt_lit v 1.5) (\<lambda>ok.
       if ok then
         Inr (s\<lparr>score := score s + 1,
                reasons := reasons s @ [''Strong current ratio (> 1.5)'']\<rparr>)
       else
         bind_err (getitem metrics ''Current Ratio'') (\<lambda>w.
         bind_err (lt_lit w 1) (\<lambda>low.
           if low then
             Inr (s\<lparr>concerns := concerns s @
                    [''Low current ratio indicates potential liquidity issues'']\<rparr>)
           else Inr s))))"

definition check_debt_equity :: "pydict \<Rightarrow> evaluation \<Rightarrow> error + evaluation" where
  "check_debt_equity metrics s =
     bind_err (getitem metrics ''Debt/Equity'') (\<lambda>v.
     bind_err (lt_lit v 1) (\<lambda>ok.
       if ok then
         Inr (s\<lparr>score := score s + 1,
                reasons := reasons s @ [''Low debt-to-equity ratio (< 1)'']\<rparr>)
       else
         bind_err (getitem metrics ''Debt/Equity'') (\<lambda>w.
         bind_err (gt_lit w 2) (\<lambda>high.
           if high then
             Inr (s\<lparr>concerns := concerns s @
                    [''High debt levels relative to equity'']\<rparr>)
           else Inr s))))"

subsection \<open>Profitability criteria\<close>

definition check_return_on_equity :: "pydict \<Rightarrow> evaluation \<Rightarrow> error + evaluation" where
  "check_return_on_equity metrics s =
     bind_err (getitem metrics ''Return on Equity'') (\<lambda>v.
     bind_err (gt_lit v float_0_15) (\<lambda>ok.
       if ok then
         Inr (s\<lparr>score := score s + 1,
                reasons := reasons s @ [''Strong Return on Equity (> 15%)'']\<rparr>)
       else Inr s))"

definition check_return_on_assets :: "pydict \<Rightarrow> evaluation \<Rightarrow> error + evaluation" where
  "check_return_on_assets metrics s =
     bind_err (getitem metrics ''Return on Assets'') (\<lambda>v.
     bind_err (gt_lit v float_0_07) (\<lambda>ok.
       if ok then
         Inr (s\<lparr>score := score s + 1,
                reasons := reasons s @ [''Good Return on Assets (> 7%)'']\<rparr>)
       else Inr s))"

definition check_operating_margin :: "pydict \<Rightarrow> evaluation \<Rightarrow> error + evaluation" where
  "check_operating_margin metrics s =
     bind_err (getitem metrics ''Operating Margin'') (\<lambda>v.
     bind_err (gt_lit v float_0_15) (\<lambda>ok.
       if ok then
         Inr (s\<lparr>score := score s + 1,
                reasons := reasons s @ [''Healthy operating margin (> 15%)'']\<rparr>)
       else Inr s))"

subsection \<open>Growth criteria\<close>

definition check_revenue_growth :: "pydict \<Rightarrow> evaluation \<Rightarrow> error + evaluation" where
  "check_revenue_growth metrics s =
     bind_err (getitem metrics ''Revenue Growth'') (\<lambda>v.
     bind_err (gt_lit v float_0_1) (\<lambda>ok.
       if ok then
         Inr (s\<lparr>score := score s + 1,
                reasons := reasons s @ [''Strong revenue growth (> 10%)'']\<rparr>)
       else Inr s))"

definition check_earnings_growth :: "pydict \<Rightarrow> evaluation \<Rightarrow> error + evaluation" where
  "check_earnings_growth metrics s =
     bind_err (getitem metrics ''Earnings Growth'') (\<lambda>v.
     bind_err (gt_lit v float_0_1) (\<lambda>ok.
       if ok then
         Inr (s\<lparr>score := score s + 1,
                reasons := reasons s @ [''Strong earnings growth (> 10%)'']\<rparr>)
       else Inr s))"

subsection \<open>Dividend criteria\<close>

text \<open>
  \<^verbatim>\<open>and\<close> short-circuits: \<^verbatim>\<open>metrics['Payout Ratio']\<close> is read only when the yield
  exceeds 0.02.
\<close>

definition check_dividend :: "pydict \<Rightarrow> evaluation \<Rightarrow> error + evaluation" where
  "check_dividend metrics s =
     bind_err (getitem metrics ''Dividend Yield'') (\<lambda>y.
     bind_err (gt_lit y float_0_02) (\<lambda>good_yield.
       if good_yield then
         bind_err (getitem metrics ''Payout Ratio'') (\<lambda>p.
         bind_err (lt_lit p 0.75) (\<lambda>sustainable.
           if sustainable then
             Inr (s\<lparr>score := score s + 1,
                    reasons := reasons s @
                      [''Sustainable dividend with good yield (> 2%)'']\<rparr>)
           else Inr s))
       else Inr s))"

subsection \<open>The whole function\<close>

definition evaluate_stock ::
  "pydict \<Rightarrow> error + (int \<times> int \<times> string list \<times> string list)" where
  "evaluate_stock metrics =
     bind_err (check_pe_ratio metrics \<lparr>score = 0, reasons = [], concerns = []\<rparr>) (\<lambda>s1.
     bind_err (check_peg_ratio metrics s1) (\<lambda>s2.
     bind_err (check_price_book metrics s2) (\<lambda>s3.
     bind_err (check_ev_ebitda metrics s3) (\<lambda>s4.
     bind_err (check_current_ratio metrics s4) (\<lambda>s5.
     bind_err (check_debt_equity metrics s5) (\<lambda>s6.
     bind_err (check_return_on_equity metrics s6) (\<lambda>s7.
     bind_err (check_return_on_assets metrics s7) (\<lambda>s8.
     bind_err (check_operating_margin metrics s8) (\<lambda>s9.
     bind_err (check_revenue_growth metrics s9) (\<lambda>s10.
     bind_err (check_earnings_growth metrics s10) (\<lambda>s11.
     bind_err (check_dividend metrics s11) (\<lambda>s12.
       Inr (score s12, max_score, reasons s12, concerns s12)))))))))))))"

section \<open>The metric extractor: \<^verbatim>\<open>calculate_metrics\<close>\<close>

text \<open>
  \<^verbatim>\<open>info.get(k, d)\<close> returns the stored value when the key is present, whatever the
  value is (\<^verbatim>\<open>None\<close> included), and \<^verbatim>\<open>d\<close> only when the key is missing;
  \<^verbatim>\<open>info.get(k)\<close> has the default \<^verbatim>\<open>None\<close>.
\<close>

definition dict_get :: "pydict \<Rightarrow> string \<Rightarrow> pyval \<Rightarrow> pyval" where
  "dict_get d k dflt = (case d k of None \<Rightarrow> dflt | Some v \<Rightarrow> v)"

text \<open>The truth value of a scalar in a condition.\<close>

fun truthy :: "pyval \<Rightarrow> bool" where
  "truthy PNone = False"
| "truthy (PStr s) = (s \<noteq> [])"
| "truthy (PNum x) = (x \<noteq> 0)"
| "truthy PNaN = True"
| "truthy PPosInf = True"
| "truthy PNegInf = True"

text \<open>
  \<^verbatim>\<open>v / 1e9\<close>: dividing \<^verbatim>\<open>None\<close> or a string by a float raises \<^verbatim>\<open>TypeError\<close>. The
  quotient of a finite number is taken exactly (the rounding of the float division is
  left out; no statement below looks at a quotient other than that of 0).
\<close>

fun truediv :: "pyval \<Rightarrow> rat \<Rightarrow> error + pyval" where
  "truediv (PNum x) c = Inr (PNum (x / c))"
| "truediv PNaN c = Inr PNaN"
| "truediv PPosInf c = Inr PPosInf"
| "truediv PNegInf c = Inr PNegInf"
| "truediv PNone c = Inl TypeError"
| "truediv (PStr s) c = Inl TypeError"

text \<open>
  The parameters \<^verbatim>\<open>hist\<close>, \<^verbatim>\<open>balance_sheet\<close>, \<^verbatim>\<open>income_stmt\<close> and \<^verbatim>\<open>cash_flow\<close> are
  never read by the function body and are left out. The only statement that can raise
  is the division for the market capitalisation; the dictionary is local until it is
  returned, so the model computes that quotient first and then builds the dictionary.
\<close>

definition calculate_metrics :: "pydict \<Rightarrow> error + pydict" where
  "calculate_metrics info =
     bind_err (truediv (dict_get info ''marketCap'' (PNum 0)) 1000000000) (\<lambda>market_cap.
       Inr [''Current Price'' \<mapsto> dict_get info ''currentPrice'' (PNum 0),
            ''52 Week High'' \<mapsto> dict_get info ''fiftyTwoWeekHigh'' (PNum 0),
            ''52 Week Low'' \<mapsto> dict_get info ''fiftyTwoWeekLow'' (PNum 0),
            ''Market Cap (B)'' \<mapsto> market_cap,
            ''P/E Ratio'' \<mapsto> dict_get info ''trailingPE'' (PNum 0),
            ''Forward P/E'' \<mapsto> dict_get info ''forwardPE'' (PNum 0),
            ''PEG Ratio'' \<mapsto> dict_get info ''pegRatio'' (PNum 0),
            ''Price/Book'' \<mapsto> dict_get info ''priceToBook'' (PNum 0),
            ''Price/Sales'' \<mapsto> dict_get info ''priceToSalesTrailing12Months'' (PNum 0),
            ''EV/EBITDA'' \<mapsto> dict_get info ''enterpriseToEbitda'' (PNum 0),
            ''Current Ratio'' \<mapsto> dict_get info ''currentRatio'' (PNum 0),
            ''Debt/Equity'' \<mapsto> dict_get info ''debtToEquity'' (PNum 0),
            ''Quick Ratio'' \<mapsto> dict_get info ''quickRatio'' (PNum 0),
            ''Return on Equity'' \<mapsto> dict_get info ''returnOnEquity'' (PNum 0),
            ''Return on Assets'' \<mapsto> dict_get info ''returnOnAssets'' (PNum 0),
            ''Profit Margin'' \<mapsto> dict_get info ''profitMargins'' (PNum 0),
            ''Operating Margin'' \<mapsto> dict_get info ''operatingMargins'' (PNum 0),
            ''Gross Margin'' \<mapsto> dict_get info ''grossMargins'' (PNum 0),
            ''Revenue Growth'' \<mapsto> dict_get info ''revenueGrowth'' (PNum 0),
            ''Earnings Growth'' \<mapsto> dict_get info ''earningsGrowth'' (PNum 0),
            ''Dividend Yield'' \<mapsto>
              (if truthy (dict_get info ''dividendYield'' PNone)
               then dict_get info ''dividendYield'' (PNum 0) else PNum 0),
            ''Payout Ratio'' \<mapsto>
              (if truthy (dict_get info ''payoutRatio'' PNone)
               then dict_get info ''payoutRatio'' (PNum 0) else PNum 0)])"

section \<open>Data acquisition: \<^verbatim>\<open>get_stock_data\<close>\<close>

text \<open>
  The file defines \<^verbatim>\<open>get_stock_data\<close> and \<^verbatim>\<open>calculate_technical_indicators\<close> twice;
  the second definition of each replaces the first when the module is loaded, so the
  second \<^verbatim>\<open>get_stock_data\<close> (with the \<^verbatim>\<open>try\<close> block) is the one modelled.

  The provider object \<^verbatim>\<open>yf.Ticker(ticker)\<close> is outside this repository: it is a
  parameter, a record of what each attribute access or call answers, which may be an
  exception. The indicator calculator works on a pandas frame and is a parameter too.
  An exception met in this stage carries its message, which \<^verbatim>\<open>str(e)\<close> returns.
\<close>

datatype exn = ValueError string | OtherException string

fun str_exn :: "exn \<Rightarrow> string" where
  "str_exn (ValueError msg) = msg"
| "str_exn (OtherException msg) = msg"

record ('row, 'stmt) ticker =
  stock_info :: "exn + pydict"
  stock_history :: "exn + 'row list"
  stock_balance_sheet :: "exn + 'stmt"
  stock_income_stmt :: "exn + 'stmt"
  stock_cash_flow :: "exn + 'stmt"

text \<open>
  The last argument and the second component of the result are the messages shown with
  \<^verbatim>\<open>st.error\<close> so far. The handler shows its message and raises the exception again.
\<close>

definition get_stock_data ::
  "(string \<Rightarrow> ('row, 'stmt) ticker) \<Rightarrow> ('row list \<Rightarrow> exn + 'row list) \<Rightarrow> string \<Rightarrow>
   string list \<Rightarrow> (exn + (pydict \<times> 'row list \<times> 'stmt \<times> 'stmt \<times> 'stmt)) \<times> string list"
  where
  "get_stock_data yf_Ticker calculate_technical_indicators ticker shown =
     (let stock = yf_Ticker ticker;
          attempt =
            bind_err (stock_info stock) (\<lambda>info.
            bind_err (stock_history stock) (\<lambda>hist.
              if hist = [] then
                Inl (ValueError (''No historical data found for '' @ ticker))
              else
                bind_err (calculate_technical_indicators hist) (\<lambda>hist.
                bind_err (stock_balance_sheet stock) (\<lambda>balance_sheet.
                bind_err (stock_income_stmt stock) (\<lambda>income_stmt.
                bind_err (stock_cash_flow stock) (\<lambda>cash_flow.
                  Inr (info, hist, balance_sheet, income_stmt, cash_flow)))))))
      in case attempt of
           Inl e \<Rightarrow>
             (Inl e,
              shown @ [''Error fetching data for '' @ ticker @ '': '' @ str_exn e])
         | Inr r \<Rightarrow> (Inr r, shown))"

section \<open>The indicator calculator: the RSI column\<close>

text \<open>
  The second definition of \<^verbatim>\<open>calculate_technical_indicators\<close> (the one with the
  back-fill) replaces the first. Of its five columns only RSI is modelled; the other
  four do not enter it. The column is computed by pandas on a float64 series. A float
  is modelled by its exact value, or one of the three special values; the operations
  follow IEEE 754 on the special values (a nonzero number divided by zero is an
  infinity, zero divided by zero is NaN, nothing raises) and are exact on finite
  values: the rounding of each operation and the sign of zero are left out. The sign
  of a zero average loss only decides whether \<^verbatim>\<open>rs\<close> is plus or minus infinity, and
  \<^verbatim>\<open>100 - 100 / (1 + rs)\<close> is 100 for both. The closing prices are finite numbers.
\<close>

datatype float64 = Finite rat | NaN | PosInfinity | NegInfinity

fun fneg :: "float64 \<Rightarrow> float64" where
  "fneg (Finite a) = Finite (- a)"
| "fneg NaN = NaN"
| "fneg PosInfinity = NegInfinity"
| "fneg NegInfinity = PosInfinity"

fun fadd :: "float64 \<Rightarrow> float64 \<Rightarrow> float64" where
  "fadd (Finite a) (Finite b) = Finite (a + b)"
| "fadd NaN y = NaN"
| "fadd x NaN = NaN"
| "fadd PosInfinity NegInfinity = NaN"
| "fadd NegInfinity PosInfinity = NaN"
| "fadd PosInfinity y = PosInfinity"
| "fadd NegInfinity y = NegInfinity"
| "fadd x PosInfinity = PosInfinity"
| "fadd x NegInfinity = NegInfinity"

definition fsub :: "float64 \<Rightarrow> float64 \<Rightarrow> float64" where
  "fsub x y = fadd x (fneg y)"

fun fdiv :: "float64 \<Rightarrow> float64 \<Rightarrow> float64" where
  "fdiv (Finite a) (Finite b) =
     (if b \<noteq> 0 then Finite (a / b)
      else if a = 0 then NaN else if 0 < a then PosInfinity else NegInfinity)"
| "fdiv NaN y = NaN"
| "fdiv x NaN = NaN"
| "fdiv (Finite a) PosInfinity = Finite 0"
| "fdiv (Finite a) NegInfinity = Finite 0"
| "fdiv PosInfinity (Finite b) = (if b < 0 then NegInfinity else PosInfinity)"
| "fdiv NegInfinity (Finite b) = (if b < 0 then PosInfinity else NegInfinity)"
| "fdiv PosInfinity y = NaN"
| "fdiv NegInfinity y = NaN"

text \<open>\<^verbatim>\<open>x > c\<close> and \<^verbatim>\<open>x < c\<close> for an entry of a series; a comparison with NaN is false.\<close>

fun fgt :: "float64 \<Rightarrow> rat \<Rightarrow> bool" where
  "fgt (Finite a) c = (c < a)"
| "fgt PosInfinity c = True"
| "fgt NegInfinity c = False"
| "fgt NaN c = False"

fun flt :: "float64 \<Rightarrow> rat \<Rightarrow> bool" where
  "flt (Finite a) c = (a < c)"
| "flt PosInfinity c = False"
| "flt NegInfinity c = True"
| "flt NaN c = False"

text \<open>
  The pandas operations used. \<^verbatim>\<open>diff()\<close> gives NaN in the first row and the difference
  to the previous row after it. \<^verbatim>\<open>s.where(cond, other)\<close> keeps an entry where the
  condition holds and puts \<^verbatim>\<open>other\<close> elsewhere. \<^verbatim>\<open>rolling(window=w).mean()\<close> gives, in
  row \<open>i\<close>, the mean of the \<open>w\<close> rows ending there; it is NaN while fewer than \<open>w\<close> rows
  are available and when one of them is NaN. \<^verbatim>\<open>fillna(method='bfill')\<close> replaces a NaN
  by the next later entry that is not NaN, and leaves it when there is none.
\<close>

definition series_diff :: "rat list \<Rightarrow> float64 list" where
  "series_diff xs =
     (case xs of [] \<Rightarrow> []
      | x # rest \<Rightarrow> NaN # map (\<lambda>(prev, cur). Finite (cur - prev)) (zip xs rest))"

definition series_where :: "(float64 \<Rightarrow> bool) \<Rightarrow> float64 \<Rightarrow> float64 list \<Rightarrow> float64 list" where
  "series_where cond other xs = map (\<lambda>x. if cond x then x else other) xs"

definition window_mean :: "float64 list \<Rightarrow> float64" where
  "window_mean ws =
     (if NaN \<in> set ws then NaN
      else fdiv (foldr fadd ws (Finite 0)) (Finite (of_nat (length ws))))"

definition rolling_mean :: "nat \<Rightarrow> float64 list \<Rightarrow> float64 list" where
  "rolling_mean w xs =
     map (\<lambda>i. if i + 1 < w then NaN else window_mean (take w (drop (i + 1 - w) xs)))
       [0..<length xs]"

fun bfill :: "float64 list \<Rightarrow> float64 list" where
  "bfill [] = []"
| "bfill (x # xs) =
     (if x = NaN then (case bfill xs of [] \<Rightarrow> NaN | y # ys \<Rightarrow> y) else x) # bfill xs"

text \<open>
  Lines 193 to 197: \<^verbatim>\<open>delta\<close>, \<^verbatim>\<open>gain\<close>, \<^verbatim>\<open>loss\<close>, \<^verbatim>\<open>rs\<close> and the RSI column as
  assigned, and line 204: the column after the back-fill.
\<close>

definition rsi_delta :: "rat list \<Rightarrow> float64 list" where
  "rsi_delta closes = series_diff closes"

definition rsi_gain :: "rat list \<Rightarrow> float64 list" where
  "rsi_gain closes =
     rolling_mean 14 (series_where (\<lambda>d. fgt d 0) (Finite 0) (rsi_delta closes))"

definition rsi_loss :: "rat list \<Rightarrow> float64 list" where
  "rsi_loss closes =
     rolling_mean 14 (map fneg (series_where (\<lambda>d. flt d 0) (Finite 0) (rsi_delta closes)))"

definition rsi_rs :: "rat list \<Rightarrow> float64 list" where
  "rsi_rs closes = map (\<lambda>(g, l). fdiv g l) (zip (rsi_gain closes) (rsi_loss closes))"

definition rsi_raw :: "rat list \<Rightarrow> float64 list" where
  "rsi_raw closes =
     map (\<lambda>r. fsub (Finite 100) (fdiv (Finite 100) (fadd (Finite 1) r))) (rsi_rs closes)"

definition rsi_column :: "rat list \<Rightarrow> float64 list" where
  "rsi_column closes = bfill (rsi_raw closes)"

section \<open>Vocabulary for the properties\<close>

text \<open>The thirteen keys that \<^verbatim>\<open>evaluate_stock\<close> reads, in the order it reads them.\<close>

definition scorer_keys :: "string list" where
  "scorer_keys =
     [''P/E Ratio'', ''PEG Ratio'', ''Price/Book'', ''EV/EBITDA'', ''Current Ratio'',
      ''Debt/Equity'', ''Return on Equity'', ''Return on Assets'', ''Operating Margin'',
      ''Revenue Growth'', ''Earnings Growth'', ''Dividend Yield'', ''Payout Ratio'']"

fun is_number :: "pyval \<Rightarrow> bool" where
  "is_number (PNum x) = True"
| "is_number PNaN = True"
| "is_number PPosInf = True"
| "is_number PNegInf = True"
| "is_number PNone = False"
| "is_number (PStr s) = False"

text \<open>A metrics mapping as the data model has it: every key read holds a number.\<close>

definition numeric_metrics :: "pydict \<Rightarrow> bool" where
  "numeric_metrics metrics =
     list_all (\<lambda>k. case metrics k of None \<Rightarrow> False | Some v \<Rightarrow> is_number v) scorer_keys"

definition same_inputs :: "pydict \<Rightarrow> pydict \<Rightarrow> bool" where
  "same_inputs metrics metrics' = list_all (\<lambda>k. metrics k = metrics' k) scorer_keys"

definition all_zero :: "pydict \<Rightarrow> bool" where
  "all_zero metrics = list_all (\<lambda>k. metrics k = Some (PNum 0)) scorer_keys"

text \<open>The reason and concern texts of the source, in the order of its statements.\<close>

definition reason_texts :: "string list" where
  "reason_texts =
     [''P/E ratio is reasonable (< 25)'',
      ''PEG ratio indicates good value (< 1.5)'',
      ''Price/Book ratio is attractive (< 3)'',
      ''EV/EBITDA indicates reasonable valuation (< 15)'',
      ''Strong current ratio (> 1.5)'',
      ''Low debt-to-equity ratio (< 1)'',
      ''Strong Return on Equity (> 15%)'',
      ''Good Return on Assets (> 7%)'',
      ''Healthy operating margin (> 15%)'',
      ''Strong revenue growth (> 10%)'',
      ''Strong earnings growth (> 10%)'',
      ''Sustainable dividend with good yield (> 2%)'']"

definition concern_texts :: "string list" where
  "concern_texts =
     [''High P/E ratio indicates potential overvaluation'',
      ''Low current ratio indicates potential liquidity issues'',
      ''High debt levels relative to equity'']"

text \<open>
  What one \<^verbatim>\<open>if\<close> statement can do to the locals: award its point with its reason,
  leave them alone, or append one of its concerns.
\<close>

definition award :: "string \<Rightarrow> evaluation \<Rightarrow> evaluation" where
  "award t s = s\<lparr>score := score s + 1, reasons := reasons s @ [t]\<rparr>"

definition flag :: "string \<Rightarrow> evaluation \<Rightarrow> evaluation" where
  "flag c s = s\<lparr>concerns := concerns s @ [c]\<rparr>"

definition outcomes :: "string \<Rightarrow> string list \<Rightarrow> evaluation \<Rightarrow> evaluation list" where
  "outcomes t cs s = award t s # s # map (\<lambda>c. flag c s) cs"

definition consistent :: "string list \<Rightarrow> string list \<Rightarrow> evaluation \<Rightarrow> bool" where
  "consistent rs cs s \<longleftrightarrow>
     score s = int (length (reasons s)) \<and> subseq (reasons s) rs \<and> subseq (concerns s) cs"

text \<open>
  The RSI of one row from its average gain and average loss, and the ranges that
  averages and RSI values are shown to stay in.
\<close>

definition rsi_of :: "float64 \<Rightarrow> float64 \<Rightarrow> float64" where
  "rsi_of g l = fsub (Finite 100) (fdiv (Finite 100) (fadd (Finite 1) (fdiv g l)))"

definition nonneg_or_nan :: "float64 \<Rightarrow> bool" where
  "nonneg_or_nan x \<longleftrightarrow> (case x of Finite a \<Rightarrow> 0 \<le> a | NaN \<Rightarrow> True | _ \<Rightarrow> False)"

definition nonneg_finite :: "float64 \<Rightarrow> bool" where
  "nonneg_finite x \<longleftrightarrow> (case x of Finite a \<Rightarrow> 0 \<le> a | _ \<Rightarrow> False)"

definition percent_or_nan :: "float64 \<Rightarrow> bool" where
  "percent_or_nan x \<longleftrightarrow>
     (case x of Finite r \<Rightarrow> 0 \<le> r \<and> r \<le> 100 | NaN \<Rightarrow> True | _ \<Rightarrow> False)"

section \<open>The worked inputs\<close>

definition full_pass_metrics :: pydict where
  "full_pass_metrics =
     [''P/E Ratio'' \<mapsto> PNum 20, ''PEG Ratio'' \<mapsto> PNum float_1_2, ''Price/Book'' \<mapsto> PNum 2,
      ''EV/EBITDA'' \<mapsto> PNum 10, ''Current Ratio'' \<mapsto> PNum 2, ''Debt/Equity'' \<mapsto> PNum 0.5,
      ''Return on Equity'' \<mapsto> PNum float_0_2, ''Return on Assets'' \<mapsto> PNum float_0_1,
      ''Operating Margin'' \<mapsto> PNum float_0_2, ''Revenue Growth'' \<mapsto> PNum float_0_15,
      ''Earnings Growth'' \<mapsto> PNum float_0_12, ''Dividend Yield'' \<mapsto> PNum float_0_03,
      ''Payout Ratio'' \<mapsto> PNum 0.5]"

definition three_concern_metrics :: pydict where
  "three_concern_metrics =
     full_pass_metrics(''P/E Ratio'' \<mapsto> PNum 40, ''Current Ratio'' \<mapsto> PNum float_0_8,
       ''Debt/Equity'' \<mapsto> PNum 2.5)"

definition high_debt_metrics :: pydict where
  "high_debt_metrics = full_pass_metrics(''Debt/Equity'' \<mapsto> PNum 2.5)"

text \<open>The dictionary that the extractor builds from an empty profile.\<close>

definition zero_metrics :: pydict where
  "zero_metrics =
     [''Current Price'' \<mapsto> PNum 0, ''52 Week High'' \<mapsto> PNum 0, ''52 Week Low'' \<mapsto> PNum 0,
      ''Market Cap (B)'' \<mapsto> PNum 0, ''P/E Ratio'' \<mapsto> PNum 0, ''Forward P/E'' \<mapsto> PNum 0,
      ''PEG Ratio'' \<mapsto> PNum 0, ''Price/Book'' \<mapsto> PNum 0, ''Price/Sales'' \<mapsto> PNum 0,
      ''EV/EBITDA'' \<mapsto> PNum 0, ''Current Ratio'' \<mapsto> PNum 0, ''Debt/Equity'' \<mapsto> PNum 0,
      ''Quick Ratio'' \<mapsto> PNum 0, ''Return on Equity'' \<mapsto> PNum 0,
      ''Return on Assets'' \<mapsto> PNum 0, ''Profit Margin'' \<mapsto> PNum 0,
      ''Operating Margin'' \<mapsto> PNum 0, ''Gross Margin'' \<mapsto> PNum 0,
      ''Revenue Growth'' \<mapsto> PNum 0, ''Earnings Growth'' \<mapsto> PNum 0,
      ''Dividend Yield'' \<mapsto> PNum 0, ''Payout Ratio'' \<mapsto> PNum 0]"

text \<open>A ticker for which the provider has a profile but no price history.\<close>

definition no_history_ticker :: "string \<Rightarrow> (rat, unit) ticker" where
  "no_history_ticker t =
     \<lparr>stock_info = Inr Map.empty, stock_history = Inr [],
      stock_balance_sheet = Inr (), stock_income_stmt = Inr (), stock_cash_flow = Inr ()\<rparr>"

text \<open>
  The entries of the metrics dictionary, each with the provider field it is read from.
\<close>

definition metric_fields :: "(string \<times> string) list" where
  "metric_fields =
     [(''Current Price'', ''currentPrice''), (''52 Week High'', ''fiftyTwoWeekHigh''),
      (''52 Week Low'', ''fiftyTwoWeekLow''), (''Market Cap (B)'', ''marketCap''),
      (''P/E Ratio'', ''trailingPE''), (''Forward P/E'', ''forwardPE''),
      (''PEG Ratio'', ''pegRatio''), (''Price/Book'', ''priceToBook''),
      (''Price/Sales'', ''priceToSalesTrailing12Months''),
      (''EV/EBITDA'', ''enterpriseToEbitda''), (''Current Ratio'', ''currentRatio''),
      (''Debt/Equity'', ''debtToEquity''), (''Quick Ratio'', ''quickRatio''),
      (''Return on Equity'', ''returnOnEquity''), (''Return on Assets'', ''returnOnAssets''),
      (''Profit Margin'', ''profitMargins''), (''Operating Margin'', ''operatingMargins''),
      (''Gross Margin'', ''grossMargins''), (''Revenue Growth'', ''revenueGrowth''),
      (''Earnings Growth'', ''earningsGrowth''), (''Dividend Yield'', ''dividendYield''),
      (''Payout Ratio'', ''payoutRatio'')]"

text \<open>Two profiles in which the provider reports a field as null.\<close>

definition null_pe_profile :: pydict where
  "null_pe_profile = [''trailingPE'' \<mapsto> PNone]"

definition null_cap_profile :: pydict where
  "null_cap_profile = [''marketCap'' \<mapsto> PNone]"

text \<open>
  Three price series: no change at all, a rise every day, and ups and downs followed
  by a day without change.
\<close>

definition flat_closes :: "rat list" where
  "flat_closes = [10, 10, 10, 10, 10, 10, 10, 10, 10, 10, 10, 10, 10, 10, 10]"

definition rising_closes :: "rat list" where
  "rising_closes = [1, 2, 3, 4, 5, 6, 7, 8, 9, 10, 11, 12, 13, 14, 15]"

definition mixed_closes :: "rat list" where
  "mixed_closes = [10, 11, 10, 12, 11, 13, 12, 14, 13, 15, 14, 16, 15, 17, 16, 16]"

section \<open>Lemmas on the single statements\<close>

lemmas float_defs =
  float_0_02_def float_0_03_def float_0_07_def float_0_1_def float_0_12_def
  float_0_15_def float_0_2_def float_0_8_def float_1_2_def

text \<open>Each constant is the float64 nearest to its decimal.\<close>

lemma float_literals:
  "float64_of 0.02 5764607523034235 58 \<and> float_0_02 = of_int 5764607523034235 / 2 ^ 58"
  "float64_of 0.03 8646911284551352 58 \<and> float_0_03 = of_int 8646911284551352 / 2 ^ 58"
  "float64_of 0.07 5044031582654956 56 \<and> float_0_07 = of_int 5044031582654956 / 2 ^ 56"
  "float64_of 0.1 7205759403792794 56 \<and> float_0_1 = of_int 7205759403792794 / 2 ^ 56"
  "float64_of 0.12 8646911284551352 56 \<and> float_0_12 = of_int 8646911284551352 / 2 ^ 56"
  "float64_of 0.15 5404319552844595 55 \<and> float_0_15 = of_int 5404319552844595 / 2 ^ 55"
  "float64_of 0.2 7205759403792794 55 \<and> float_0_2 = of_int 7205759403792794 / 2 ^ 55"
  "float64_of 0.8 7205759403792794 53 \<and> float_0_8 = of_int 7205759403792794 / 2 ^ 53"
  "float64_of 1.2 5404319552844595 52 \<and> float_1_2 = of_int 5404319552844595 / 2 ^ 52"
  by (simp_all add: float64_of_def float_defs)

lemmas check_defs =
  check_pe_ratio_def check_peg_ratio_def check_price_book_def check_ev_ebitda_def
  check_current_ratio_def check_debt_equity_def check_return_on_equity_def
  check_return_on_assets_def check_operating_margin_def check_revenue_growth_def
  check_earnings_growth_def check_dividend_def

lemma lit_lt_number: "is_number v \<Longrightarrow> \<exists>b. lit_lt c v = Inr b"
  by (cases v) auto

lemma lt_lit_number: "is_number v \<Longrightarrow> \<exists>b. lt_lit v c = Inr b"
  by (cases v) auto

lemma gt_lit_number: "is_number v \<Longrightarrow> \<exists>b. gt_lit v c = Inr b"
  by (simp add: gt_lit_def lit_lt_number)

lemma between_number: "is_number v \<Longrightarrow> \<exists>b. between a v c = Inr b"
  by (cases v) (auto simp: between_def bind_err_def)

lemma numeric_metricsD:
  assumes "numeric_metrics m" and "k \<in> set scorer_keys"
  shows "\<exists>v. m k = Some v \<and> is_number v"
  using assms by (auto simp: numeric_metrics_def list_all_iff split: option.splits)

subsection \<open>What each statement can do\<close>

lemma check_pe_ratio_cases:
  assumes "check_pe_ratio m s = Inr s'"
  shows "s' \<in> set (outcomes ''P/E ratio is reasonable (< 25)'' [''High P/E ratio indicates potential overvaluation''] s)"
  using assms
  by (auto simp: check_pe_ratio_def bind_err_def outcomes_def award_def flag_def
      split: sum.splits if_splits)

lemma check_peg_ratio_cases:
  assumes "check_peg_ratio m s = Inr s'"
  shows "s' \<in> set (outcomes ''PEG ratio indicates good value (< 1.5)'' [] s)"
  using assms
  by (auto simp: check_peg_ratio_def bind_err_def outcomes_def award_def flag_def
      split: sum.splits if_splits)

lemma check_price_book_cases:
  assumes "check_price_book m s = Inr s'"
  shows "s' \<in> set (outcomes ''Price/Book ratio is attractive (< 3)'' [] s)"
  using assms
  by (auto simp: check_price_book_def bind_err_def outcomes_def award_def flag_def
      split: sum.splits if_splits)

lemma check_ev_ebitda_cases:
  assumes "check_ev_ebitda m s = Inr s'"
  shows "s' \<in> set (outcomes ''EV/EBITDA indicates reasonable valuation (< 15)'' [] s)"
  using assms
  by (auto simp: check_ev_ebitda_def bind_err_def outcomes_def award_def flag_def
      split: sum.splits if_splits)

lemma check_current_ratio_cases:
  assumes "check_current_ratio m s = Inr s'"
  shows "s' \<in> set (outcomes ''Strong current ratio (> 1.5)'' [''Low current ratio indicates potential liquidity issues''] s)"
  using assms
  by (auto simp: check_current_ratio_def bind_err_def outcomes_def award_def flag_def
      split: sum.splits if_splits)

lemma check_debt_equity_cases:
  assumes "check_debt_equity m s = Inr s'"
  shows "s' \<in> set (outcomes ''Low debt-to-equity ratio (< 1)'' [''High debt levels relative to equity''] s)"
  using assms
  by (auto simp: check_debt_equity_def bind_err_def outcomes_def award_def flag_def
      split: sum.splits if_splits)

lemma check_return_on_equity_cases:
  assumes "check_return_on_equity m s = Inr s'"
  shows "s' \<in> set (outcomes ''Strong Return on Equity (> 15%)'' [] s)"
  using assms
  by (auto simp: check_return_on_equity_def bind_err_def outcomes_def award_def flag_def
      split: sum.splits if_splits)

lemma check_return_on_assets_cases:
  assumes "check_return_on_assets m s = Inr s'"
  shows "s' \<in> set (outcomes ''Good Return on Assets (> 7%)'' [] s)"
  using assms
  by (auto simp: check_return_on_assets_def bind_err_def outcomes_def award_def flag_def
      split: sum.splits if_splits)

lemma check_operating_margin_cases:
  assumes "check_operating_margin m s = Inr s'"
  shows "s' \<in> set (outcomes ''Healthy operating margin (> 15%)'' [] s)"
  using assms
  by (auto simp: check_operating_margin_def bind_err_def outcomes_def award_def flag_def
      split: sum.splits if_splits)

lemma check_revenue_growth_cases:
  assumes "check_revenue_growth m s = Inr s'"
  shows "s' \<in> set (outcomes ''Strong revenue growth (> 10%)'' [] s)"
  using assms
  by (auto simp: check_revenue_growth_def bind_err_def outcomes_def award_def flag_def
      split: sum.splits if_splits)

lemma check_earnings_growth_cases:
  assumes "check_earnings_growth m s = Inr s'"
  shows "s' \<in> set (outcomes ''Strong earnings growth (> 10%)'' [] s)"
  using assms
  by (auto simp: check_earnings_growth_def bind_err_def outcomes_def award_def flag_def
      split: sum.splits if_splits)

lemma check_dividend_cases:
  assumes "check_dividend m s = Inr s'"
  shows "s' \<in> set (outcomes ''Sustainable dividend with good yield (> 2%)'' [] s)"
  using assms
  by (auto simp: check_dividend_def bind_err_def outcomes_def award_def flag_def
      split: sum.splits if_splits)

subsection \<open>Numbers never make a statement raise\<close>

lemma check_pe_ratio_total:
  assumes "numeric_metrics m"
  shows "\<exists>s'. check_pe_ratio m s = Inr s'"
proof -
  obtain v where v: "m ''P/E Ratio'' = Some v" "is_number v"
    using numeric_metricsD[OF assms, of "''P/E Ratio''"] by (auto simp: scorer_keys_def)
  show ?thesis
    using v between_number[OF v(2), of 0 25] gt_lit_number[OF v(2), of 35]
    by (auto simp: check_pe_ratio_def bind_err_def getitem_def)
qed

lemma check_peg_ratio_total:
  assumes "numeric_metrics m"
  shows "\<exists>s'. check_peg_ratio m s = Inr s'"
proof -
  obtain v where v: "m ''PEG Ratio'' = Some v" "is_number v"
    using numeric_metricsD[OF assms, of "''PEG Ratio''"] by (auto simp: scorer_keys_def)
  show ?thesis
    using v between_number[OF v(2), of 0 "1.5"]
    by (auto simp: check_peg_ratio_def bind_err_def getitem_def)
qed

lemma check_price_book_total:
  assumes "numeric_metrics m"
  shows "\<exists>s'. check_price_book m s = Inr s'"
proof -
  obtain v where v: "m ''Price/Book'' = Some v" "is_number v"
    using numeric_metricsD[OF assms, of "''Price/Book''"] by (auto simp: scorer_keys_def)
  show ?thesis
    using v between_number[OF v(2), of 0 3]
    by (auto simp: check_price_book_def bind_err_def getitem_def)
qed

lemma check_ev_ebitda_total:
  assumes "numeric_metrics m"
  shows "\<exists>s'. check_ev_ebitda m s = Inr s'"
proof -
  obtain v where v: "m ''EV/EBITDA'' = Some v" "is_number v"
    using numeric_metricsD[OF assms, of "''EV/EBITDA''"] by (auto simp: scorer_keys_def)
  show ?thesis
    using v between_number[OF v(2), of 0 15]
    by (auto simp: check_ev_ebitda_def bind_err_def getitem_def)
qed

lemma check_current_ratio_total:
  assumes "numeric_metrics m"
  shows "\<exists>s'. check_current_ratio m s = Inr s'"
proof -
  obtain v where v: "m ''Current Ratio'' = Some v" "is_number v"
    using numeric_metricsD[OF assms, of "''Current Ratio''"]
    by (auto simp: scorer_keys_def)
  show ?thesis
    using v gt_lit_number[OF v(2), of "1.5"] lt_lit_number[OF v(2), of 1]
    by (auto simp: check_current_ratio_def bind_err_def getitem_def)
qed

lemma check_debt_equity_total:
  assumes "numeric_metrics m"
  shows "\<exists>s'. check_debt_equity m s = Inr s'"
proof -
  obtain v where v: "m ''Debt/Equity'' = Some v" "is_number v"
    using numeric_metricsD[OF assms, of "''Debt/Equity''"] by (auto simp: scorer_keys_def)
  show ?thesis
    using v lt_lit_number[OF v(2), of 1] gt_lit_number[OF v(2), of 2]
    by (auto simp: check_debt_equity_def bind_err_def getitem_def)
qed

lemma check_return_on_equity_total:
  assumes "numeric_metrics m"
  shows "\<exists>s'. check_return_on_equity m s = Inr s'"
proof -
  obtain v where v: "m ''Return on Equity'' = Some v" "is_number v"
    using numeric_metricsD[OF assms, of "''Return on Equity''"]
    by (auto simp: scorer_keys_def)
  show ?thesis
    using v gt_lit_number[OF v(2), of float_0_15]
    by (auto simp: check_return_on_equity_def bind_err_def getitem_def)
qed

lemma check_return_on_assets_total:
  assumes "numeric_metrics m"
  shows "\<exists>s'. check_return_on_assets m s = Inr s'"
proof -
  obtain v where v: "m ''Return on Assets'' = Some v" "is_number v"
    using numeric_metricsD[OF assms, of "''Return on Assets''"]
    by (auto simp: scorer_keys_def)
  show ?thesis
    using v gt_lit_number[OF v(2), of float_0_07]
    by (auto simp: check_return_on_assets_def bind_err_def getitem_def)
qed

lemma check_operating_margin_total:
  assumes "numeric_metrics m"
  shows "\<exists>s'. check_operating_margin m s = Inr s'"
proof -
  obtain v where v: "m ''Operating Margin'' = Some v" "is_number v"
    using numeric_metricsD[OF assms, of "''Operating Margin''"]
    by (auto simp: scorer_keys_def)
  show ?thesis
    using v gt_lit_number[OF v(2), of float_0_15]
    by (auto simp: check_operating_margin_def bind_err_def getitem_def)
qed

lemma check_revenue_growth_total:
  assumes "numeric_metrics m"
  shows "\<exists>s'. check_revenue_growth m s = Inr s'"
proof -
  obtain v where v: "m ''Revenue Growth'' = Some v" "is_number v"
    using numeric_metricsD[OF assms, of "''Revenue Growth''"]
    by (auto simp: scorer_keys_def)
  show ?thesis
    using v gt_lit_number[OF v(2), of float_0_1]
    by (auto simp: check_revenue_growth_def bind_err_def getitem_def)
qed

lemma check_earnings_growth_total:
  assumes "numeric_metrics m"
  shows "\<exists>s'. check_earnings_growth m s = Inr s'"
proof -
  obtain v where v: "m ''Earnings Growth'' = Some v" "is_number v"
    using numeric_metricsD[OF assms, of "''Earnings Growth''"]
    by (auto simp: scorer_keys_def)
  show ?thesis
    using v gt_lit_number[OF v(2), of float_0_1]
    by (auto simp: check_earnings_growth_def bind_err_def getitem_def)
qed

lemma check_dividend_total:
  assumes "numeric_metrics m"
  shows "\<exists>s'. check_dividend m s = Inr s'"
proof -
  obtain y where y: "m ''Dividend Yield'' = Some y" "is_number y"
    using numeric_metricsD[OF assms, of "''Dividend Yield''"]
    by (auto simp: scorer_keys_def)
  obtain p where p: "m ''Payout Ratio'' = Some p" "is_number p"
    using numeric_metricsD[OF assms, of "''Payout Ratio''"]
    by (auto simp: scorer_keys_def)
  show ?thesis
    using y p gt_lit_number[OF y(2), of float_0_02] lt_lit_number[OF p(2), of "0.75"]
    by (auto simp: check_dividend_def bind_err_def getitem_def)
qed

section \<open>Lemmas on a whole run\<close>

lemma evaluate_stock_InrE:
  assumes "evaluate_stock m = Inr r"
  obtains s1 s2 s3 s4 s5 s6 s7 s8 s9 s10 s11 s12 where
    "check_pe_ratio m \<lparr>score = 0, reasons = [], concerns = []\<rparr> = Inr s1"
    "check_peg_ratio m s1 = Inr s2"
    "check_price_book m s2 = Inr s3"
    "check_ev_ebitda m s3 = Inr s4"
    "check_current_ratio m s4 = Inr s5"
    "check_debt_equity m s5 = Inr s6"
    "check_return_on_equity m s6 = Inr s7"
    "check_return_on_assets m s7 = Inr s8"
    "check_operating_margin m s8 = Inr s9"
    "check_revenue_growth m s9 = Inr s10"
    "check_earnings_growth m s10 = Inr s11"
    "check_dividend m s11 = Inr s12"
    "r = (score s12, max_score, reasons s12, concerns s12)"
  using assms unfolding evaluate_stock_def bind_err_def
  by (auto split: sum.splits)

lemma evaluate_stock_total:
  assumes "numeric_metrics m"
  shows "\<exists>r. evaluate_stock m = Inr r"
proof -
  obtain s1 where s1: "check_pe_ratio m \<lparr>score = 0, reasons = [], concerns = []\<rparr> = Inr s1"
    using check_pe_ratio_total[OF assms] by blast
  obtain s2 where s2: "check_peg_ratio m s1 = Inr s2"
    using check_peg_ratio_total[OF assms] by blast
  obtain s3 where s3: "check_price_book m s2 = Inr s3"
    using check_price_book_total[OF assms] by blast
  obtain s4 where s4: "check_ev_ebitda m s3 = Inr s4"
    using check_ev_ebitda_total[OF assms] by blast
  obtain s5 where s5: "check_current_ratio m s4 = Inr s5"
    using check_current_ratio_total[OF assms] by blast
  obtain s6 where s6: "check_debt_equity m s5 = Inr s6"
    using check_debt_equity_total[OF assms] by blast
  obtain s7 where s7: "check_return_on_equity m s6 = Inr s7"
    using check_return_on_equity_total[OF assms] by blast
  obtain s8 where s8: "check_return_on_assets m s7 = Inr s8"
    using check_return_on_assets_total[OF assms] by blast
  obtain s9 where s9: "check_operating_margin m s8 = Inr s9"
    using check_operating_margin_total[OF assms] by blast
  obtain s10 where s10: "check_revenue_growth m s9 = Inr s10"
    using check_revenue_growth_total[OF assms] by blast
  obtain s11 where s11: "check_earnings_growth m s10 = Inr s11"
    using check_earnings_growth_total[OF assms] by blast
  obtain s12 where s12: "check_dividend m s11 = Inr s12"
    using check_dividend_total[OF assms] by blast
  show ?thesis
    by (simp add: evaluate_stock_def bind_err_def s1 s2 s3 s4 s5 s6 s7 s8 s9 s10 s11 s12)
qed



lemma consistent_step:
  assumes "s' \<in> set (outcomes t c s)" and "consistent rs cs s"
  shows "consistent (rs @ [t]) (cs @ c) s'"
proof -
  from assms(2) have sc: "score s = int (length (reasons s))"
    and r: "subseq (reasons s) rs" and k: "subseq (concerns s) cs"
    by (simp_all add: consistent_def)
  from r have r0: "subseq (reasons s) (rs @ [t])" by (rule subseq_rev_drop_many)
  from k have k0: "subseq (concerns s) (cs @ c)" by (rule subseq_rev_drop_many)
  have k1: "subseq (concerns s @ [x]) (cs @ c)" if "x \<in> set c" for x
    using k that by (intro list_emb_append_mono) (auto simp: subseq_singleton_left)
  from assms(1) consider "s' = award t s" | "s' = s" | x where "x \<in> set c" "s' = flag x s"
    by (auto simp: outcomes_def)
  then show ?thesis
  proof cases
    case 1
    then show ?thesis by (simp add: consistent_def award_def sc r k0)
  next
    case 2
    then show ?thesis by (simp add: consistent_def sc r0 k0)
  next
    case 3
    then show ?thesis by (simp add: consistent_def flag_def sc r0 k1)
  qed
qed

lemma evaluate_stock_consistent:
  assumes "evaluate_stock m = Inr (sc, mx, rs, cs)"
  shows "mx = 12 \<and> sc = int (length rs) \<and> subseq rs reason_texts \<and> subseq cs concern_texts"
proof -
  from assms obtain s1 s2 s3 s4 s5 s6 s7 s8 s9 s10 s11 s12 where
    run: "check_pe_ratio m \<lparr>score = 0, reasons = [], concerns = []\<rparr> = Inr s1"
      "check_peg_ratio m s1 = Inr s2" "check_price_book m s2 = Inr s3"
      "check_ev_ebitda m s3 = Inr s4" "check_current_ratio m s4 = Inr s5"
      "check_debt_equity m s5 = Inr s6" "check_return_on_equity m s6 = Inr s7"
      "check_return_on_assets m s7 = Inr s8" "check_operating_margin m s8 = Inr s9"
      "check_revenue_growth m s9 = Inr s10" "check_earnings_growth m s10 = Inr s11"
      "check_dividend m s11 = Inr s12"
    and res: "(sc, mx, rs, cs) = (score s12, max_score, reasons s12, concerns s12)"
    by (rule evaluate_stock_InrE)
  have "consistent [] [] \<lparr>score = 0, reasons = [], concerns = []\<rparr>"
    by (simp add: consistent_def)
  note consistent_step[OF check_pe_ratio_cases[OF run(1)] this]
  note consistent_step[OF check_peg_ratio_cases[OF run(2)] this]
  note consistent_step[OF check_price_book_cases[OF run(3)] this]
  note consistent_step[OF check_ev_ebitda_cases[OF run(4)] this]
  note consistent_step[OF check_current_ratio_cases[OF run(5)] this]
  note consistent_step[OF check_debt_equity_cases[OF run(6)] this]
  note consistent_step[OF check_return_on_equity_cases[OF run(7)] this]
  note consistent_step[OF check_return_on_assets_cases[OF run(8)] this]
  note consistent_step[OF check_operating_margin_cases[OF run(9)] this]
  note consistent_step[OF check_revenue_growth_cases[OF run(10)] this]
  note consistent_step[OF check_earnings_growth_cases[OF run(11)] this]
  note consistent_step[OF check_dividend_cases[OF run(12)] this]
  then have "consistent reason_texts concern_texts s12"
    by (simp add: reason_texts_def concern_texts_def)
  with res show ?thesis by (simp add: consistent_def max_score_def)
qed

subsection \<open>Which statements append a concern\<close>

lemma outcomes_plain_concerns:
  assumes "s' \<in> set (outcomes t [] s)"
  shows "concerns s' = concerns s"
  using assms by (auto simp: outcomes_def award_def)

lemma check_pe_ratio_concerns:
  assumes "check_pe_ratio m s = Inr s'" and "m ''P/E Ratio'' = Some v"
  shows "concerns s' = concerns s @
           (if gt_lit v 35 = Inr True
            then [''High P/E ratio indicates potential overvaluation''] else [])"
  using assms
  by (cases v)
     (auto simp: check_pe_ratio_def bind_err_def getitem_def between_def gt_lit_def
       split: if_splits)

lemma check_current_ratio_concerns:
  assumes "check_current_ratio m s = Inr s'" and "m ''Current Ratio'' = Some v"
  shows "concerns s' = concerns s @
           (if lt_lit v 1 = Inr True
            then [''Low current ratio indicates potential liquidity issues''] else [])"
  using assms
  by (cases v)
     (auto simp: check_current_ratio_def bind_err_def getitem_def gt_lit_def
       split: if_splits)

lemma check_debt_equity_concerns:
  assumes "check_debt_equity m s = Inr s'" and "m ''Debt/Equity'' = Some v"
  shows "concerns s' = concerns s @
           (if gt_lit v 2 = Inr True
            then [''High debt levels relative to equity''] else [])"
  using assms
  by (cases v)
     (auto simp: check_debt_equity_def bind_err_def getitem_def gt_lit_def
       split: if_splits)

lemma thresholds_disjoint:
  "\<not> (between 0 v 25 = Inr True \<and> gt_lit v 35 = Inr True)"
  "\<not> (gt_lit v 1.5 = Inr True \<and> lt_lit v 1 = Inr True)"
  "\<not> (lt_lit v 1 = Inr True \<and> gt_lit v 2 = Inr True)"
  by (cases v; auto simp: between_def bind_err_def gt_lit_def)+

lemma outcomes_other_reason:
  assumes "s' \<in> set (outcomes t c s)" and "t' \<noteq> t"
  shows "t' \<in> set (reasons s') \<longleftrightarrow> t' \<in> set (reasons s)"
  using assms by (auto simp: outcomes_def award_def flag_def)

lemma check_pe_ratio_reasons:
  assumes "check_pe_ratio m s = Inr s'" and "m ''P/E Ratio'' = Some v"
  shows "reasons s' = reasons s @
           (if between 0 v 25 = Inr True then [''P/E ratio is reasonable (< 25)''] else [])"
  using assms
  by (auto simp: check_pe_ratio_def bind_err_def getitem_def split: sum.splits if_splits)

lemma check_current_ratio_reasons:
  assumes "check_current_ratio m s = Inr s'" and "m ''Current Ratio'' = Some v"
  shows "reasons s' = reasons s @
           (if gt_lit v 1.5 = Inr True then [''Strong current ratio (> 1.5)''] else [])"
  using assms
  by (auto simp: check_current_ratio_def bind_err_def getitem_def
      split: sum.splits if_splits)

lemma check_debt_equity_reasons:
  assumes "check_debt_equity m s = Inr s'" and "m ''Debt/Equity'' = Some v"
  shows "reasons s' = reasons s @
           (if lt_lit v 1 = Inr True then [''Low debt-to-equity ratio (< 1)''] else [])"
  using assms
  by (auto simp: check_debt_equity_def bind_err_def getitem_def
      split: sum.splits if_splits)

lemma three_reasons_of_run:
  assumes "evaluate_stock m = Inr (sc, mx, rs, cs)"
    and "m ''P/E Ratio'' = Some pe"
    and "m ''Current Ratio'' = Some cr"
    and "m ''Debt/Equity'' = Some de"
  shows "''P/E ratio is reasonable (< 25)'' \<in> set rs \<longleftrightarrow> between 0 pe 25 = Inr True"
    and "''Strong current ratio (> 1.5)'' \<in> set rs \<longleftrightarrow> gt_lit cr 1.5 = Inr True"
    and "''Low debt-to-equity ratio (< 1)'' \<in> set rs \<longleftrightarrow> lt_lit de 1 = Inr True"
proof -
  from assms(1) obtain s1 s2 s3 s4 s5 s6 s7 s8 s9 s10 s11 s12 where
    run: "check_pe_ratio m \<lparr>score = 0, reasons = [], concerns = []\<rparr> = Inr s1"
      "check_peg_ratio m s1 = Inr s2" "check_price_book m s2 = Inr s3"
      "check_ev_ebitda m s3 = Inr s4" "check_current_ratio m s4 = Inr s5"
      "check_debt_equity m s5 = Inr s6" "check_return_on_equity m s6 = Inr s7"
      "check_return_on_assets m s7 = Inr s8" "check_operating_margin m s8 = Inr s9"
      "check_revenue_growth m s9 = Inr s10" "check_earnings_growth m s10 = Inr s11"
      "check_dividend m s11 = Inr s12"
    and res: "(sc, mx, rs, cs) = (score s12, max_score, reasons s12, concerns s12)"
    by (rule evaluate_stock_InrE)
  note o1 = outcomes_other_reason[OF check_pe_ratio_cases[OF run(1)]]
  note o2 = outcomes_other_reason[OF check_peg_ratio_cases[OF run(2)]]
  note o3 = outcomes_other_reason[OF check_price_book_cases[OF run(3)]]
  note o4 = outcomes_other_reason[OF check_ev_ebitda_cases[OF run(4)]]
  note o5 = outcomes_other_reason[OF check_current_ratio_cases[OF run(5)]]
  note o6 = outcomes_other_reason[OF check_debt_equity_cases[OF run(6)]]
  note o7 = outcomes_other_reason[OF check_return_on_equity_cases[OF run(7)]]
  note o8 = outcomes_other_reason[OF check_return_on_assets_cases[OF run(8)]]
  note o9 = outcomes_other_reason[OF check_operating_margin_cases[OF run(9)]]
  note o10 = outcomes_other_reason[OF check_revenue_growth_cases[OF run(10)]]
  note o11 = outcomes_other_reason[OF check_earnings_growth_cases[OF run(11)]]
  note o12 = outcomes_other_reason[OF check_dividend_cases[OF run(12)]]
  from res have rs: "rs = reasons s12" by simp
  let ?pe = "''P/E ratio is reasonable (< 25)''"
  let ?cr = "''Strong current ratio (> 1.5)''"
  let ?de = "''Low debt-to-equity ratio (< 1)''"
  have "?pe \<in> set (reasons s1) \<longleftrightarrow> between 0 pe 25 = Inr True"
    using check_pe_ratio_reasons[OF run(1) assms(2)] by simp
  moreover have "?pe \<in> set (reasons s12) \<longleftrightarrow> ?pe \<in> set (reasons s1)"
    using o2[of ?pe] o3[of ?pe] o4[of ?pe] o5[of ?pe] o6[of ?pe] o7[of ?pe] o8[of ?pe]
      o9[of ?pe] o10[of ?pe] o11[of ?pe] o12[of ?pe]
    by simp
  ultimately show "?pe \<in> set rs \<longleftrightarrow> between 0 pe 25 = Inr True"
    by (simp add: rs)
  have "?cr \<notin> set (reasons s4)"
    using o1[of ?cr] o2[of ?cr] o3[of ?cr] o4[of ?cr] by simp
  then have "?cr \<in> set (reasons s5) \<longleftrightarrow> gt_lit cr 1.5 = Inr True"
    using check_current_ratio_reasons[OF run(5) assms(3)] by simp
  moreover have "?cr \<in> set (reasons s12) \<longleftrightarrow> ?cr \<in> set (reasons s5)"
    using o6[of ?cr] o7[of ?cr] o8[of ?cr] o9[of ?cr] o10[of ?cr] o11[of ?cr] o12[of ?cr]
    by simp
  ultimately show "?cr \<in> set rs \<longleftrightarrow> gt_lit cr 1.5 = Inr True"
    by (simp add: rs)
  have "?de \<notin> set (reasons s5)"
    using o1[of ?de] o2[of ?de] o3[of ?de] o4[of ?de] o5[of ?de] by simp
  then have "?de \<in> set (reasons s6) \<longleftrightarrow> lt_lit de 1 = Inr True"
    using check_debt_equity_reasons[OF run(6) assms(4)] by simp
  moreover have "?de \<in> set (reasons s12) \<longleftrightarrow> ?de \<in> set (reasons s6)"
    using o7[of ?de] o8[of ?de] o9[of ?de] o10[of ?de] o11[of ?de] o12[of ?de]
    by simp
  ultimately show "?de \<in> set rs \<longleftrightarrow> lt_lit de 1 = Inr True"
    by (simp add: rs)
qed

lemma three_concerns_of_run:
  assumes "evaluate_stock m = Inr (sc, mx, rs, cs)"
    and "m ''P/E Ratio'' = Some pe"
    and "m ''Current Ratio'' = Some cr"
    and "m ''Debt/Equity'' = Some de"
  shows "cs =
           (if gt_lit pe 35 = Inr True
            then [''High P/E ratio indicates potential overvaluation''] else []) @
           (if lt_lit cr 1 = Inr True
            then [''Low current ratio indicates potential liquidity issues''] else []) @
           (if gt_lit de 2 = Inr True
            then [''High debt levels relative to equity''] else [])"
proof -
  from assms(1) obtain s1 s2 s3 s4 s5 s6 s7 s8 s9 s10 s11 s12 where
    run: "check_pe_ratio m \<lparr>score = 0, reasons = [], concerns = []\<rparr> = Inr s1"
      "check_peg_ratio m s1 = Inr s2" "check_price_book m s2 = Inr s3"
      "check_ev_ebitda m s3 = Inr s4" "check_current_ratio m s4 = Inr s5"
      "check_debt_equity m s5 = Inr s6" "check_return_on_equity m s6 = Inr s7"
      "check_return_on_assets m s7 = Inr s8" "check_operating_margin m s8 = Inr s9"
      "check_revenue_growth m s9 = Inr s10" "check_earnings_growth m s10 = Inr s11"
      "check_dividend m s11 = Inr s12"
    and res: "(sc, mx, rs, cs) = (score s12, max_score, reasons s12, concerns s12)"
    by (rule evaluate_stock_InrE)
  have c1: "concerns s1 =
      (if gt_lit pe 35 = Inr True
       then [''High P/E ratio indicates potential overvaluation''] else [])"
    using check_pe_ratio_concerns[OF run(1) assms(2)] by simp
  have c4: "concerns s4 = concerns s1"
    using outcomes_plain_concerns[OF check_peg_ratio_cases[OF run(2)]]
      outcomes_plain_concerns[OF check_price_book_cases[OF run(3)]]
      outcomes_plain_concerns[OF check_ev_ebitda_cases[OF run(4)]]
    by simp
  have c5: "concerns s5 = concerns s4 @
      (if lt_lit cr 1 = Inr True
       then [''Low current ratio indicates potential liquidity issues''] else [])"
    by (rule check_current_ratio_concerns[OF run(5) assms(3)])
  have c6: "concerns s6 = concerns s5 @
      (if gt_lit de 2 = Inr True then [''High debt levels relative to equity''] else [])"
    by (rule check_debt_equity_concerns[OF run(6) assms(4)])
  have c12: "concerns s12 = concerns s6"
    using outcomes_plain_concerns[OF check_return_on_equity_cases[OF run(7)]]
      outcomes_plain_concerns[OF check_return_on_assets_cases[OF run(8)]]
      outcomes_plain_concerns[OF check_operating_margin_cases[OF run(9)]]
      outcomes_plain_concerns[OF check_revenue_growth_cases[OF run(10)]]
      outcomes_plain_concerns[OF check_earnings_growth_cases[OF run(11)]]
      outcomes_plain_concerns[OF check_dividend_cases[OF run(12)]]
    by simp
  from res have "cs = concerns s12" by simp
  then show "cs =
           (if gt_lit pe 35 = Inr True
            then [''High P/E ratio indicates potential overvaluation''] else []) @
           (if lt_lit cr 1 = Inr True
            then [''Low current ratio indicates potential liquidity issues''] else []) @
           (if gt_lit de 2 = Inr True
            then [''High debt levels relative to equity''] else [])"
    by (simp only: c12 c6 c5 c4 c1 append_assoc)
qed

subsection \<open>The result depends on the thirteen entries read only\<close>

lemma evaluate_stock_cong:
  assumes "same_inputs m m'"
  shows "evaluate_stock m' = evaluate_stock m"
proof -
  from assms have "\<forall>k\<in>set scorer_keys. getitem m' k = getitem m k"
    by (simp add: same_inputs_def list_all_iff getitem_def)
  then have g: "getitem m' ''P/E Ratio'' = getitem m ''P/E Ratio''"
    "getitem m' ''PEG Ratio'' = getitem m ''PEG Ratio''"
    "getitem m' ''Price/Book'' = getitem m ''Price/Book''"
    "getitem m' ''EV/EBITDA'' = getitem m ''EV/EBITDA''"
    "getitem m' ''Current Ratio'' = getitem m ''Current Ratio''"
    "getitem m' ''Debt/Equity'' = getitem m ''Debt/Equity''"
    "getitem m' ''Return on Equity'' = getitem m ''Return on Equity''"
    "getitem m' ''Return on Assets'' = getitem m ''Return on Assets''"
    "getitem m' ''Operating Margin'' = getitem m ''Operating Margin''"
    "getitem m' ''Revenue Growth'' = getitem m ''Revenue Growth''"
    "getitem m' ''Earnings Growth'' = getitem m ''Earnings Growth''"
    "getitem m' ''Dividend Yield'' = getitem m ''Dividend Yield''"
    "getitem m' ''Payout Ratio'' = getitem m ''Payout Ratio''"
    by (simp_all add: scorer_keys_def)
  have "check_pe_ratio m' s = check_pe_ratio m s"
    "check_peg_ratio m' s = check_peg_ratio m s"
    "check_price_book m' s = check_price_book m s"
    "check_ev_ebitda m' s = check_ev_ebitda m s"
    "check_current_ratio m' s = check_current_ratio m s"
    "check_debt_equity m' s = check_debt_equity m s"
    "check_return_on_equity m' s = check_return_on_equity m s"
    "check_return_on_assets m' s = check_return_on_assets m s"
    "check_operating_margin m' s = check_operating_margin m s"
    "check_revenue_growth m' s = check_revenue_growth m s"
    "check_earnings_growth m' s = check_earnings_growth m s"
    "check_dividend m' s = check_dividend m s" for s
    unfolding check_defs g by (rule refl)+
  then show ?thesis by (simp add: evaluate_stock_def)
qed

section \<open>Lemmas on the extractor\<close>

lemma calculate_metrics_empty: "calculate_metrics Map.empty = Inr zero_metrics"
  by (simp add: calculate_metrics_def dict_get_def bind_err_def zero_metrics_def)

text \<open>
  What the extractor stores under each name; an absent field gives 0 everywhere, a null
  field gives 0 under the two dividend entries.
\<close>

lemma calculate_metrics_entries:
  assumes "calculate_metrics info = Inr metrics"
  shows "metrics ''Current Price'' = Some (dict_get info ''currentPrice'' (PNum 0))"
    and "metrics ''52 Week High'' = Some (dict_get info ''fiftyTwoWeekHigh'' (PNum 0))"
    and "metrics ''52 Week Low'' = Some (dict_get info ''fiftyTwoWeekLow'' (PNum 0))"
    and "metrics ''P/E Ratio'' = Some (dict_get info ''trailingPE'' (PNum 0))"
    and "metrics ''Forward P/E'' = Some (dict_get info ''forwardPE'' (PNum 0))"
    and "metrics ''PEG Ratio'' = Some (dict_get info ''pegRatio'' (PNum 0))"
    and "metrics ''Price/Book'' = Some (dict_get info ''priceToBook'' (PNum 0))"
    and "metrics ''Price/Sales'' =
           Some (dict_get info ''priceToSalesTrailing12Months'' (PNum 0))"
    and "metrics ''EV/EBITDA'' = Some (dict_get info ''enterpriseToEbitda'' (PNum 0))"
    and "metrics ''Current Ratio'' = Some (dict_get info ''currentRatio'' (PNum 0))"
    and "metrics ''Debt/Equity'' = Some (dict_get info ''debtToEquity'' (PNum 0))"
    and "metrics ''Quick Ratio'' = Some (dict_get info ''quickRatio'' (PNum 0))"
    and "metrics ''Return on Equity'' = Some (dict_get info ''returnOnEquity'' (PNum 0))"
    and "metrics ''Return on Assets'' = Some (dict_get info ''returnOnAssets'' (PNum 0))"
    and "metrics ''Profit Margin'' = Some (dict_get info ''profitMargins'' (PNum 0))"
    and "metrics ''Operating Margin'' = Some (dict_get info ''operatingMargins'' (PNum 0))"
    and "metrics ''Gross Margin'' = Some (dict_get info ''grossMargins'' (PNum 0))"
    and "metrics ''Revenue Growth'' = Some (dict_get info ''revenueGrowth'' (PNum 0))"
    and "metrics ''Earnings Growth'' = Some (dict_get info ''earningsGrowth'' (PNum 0))"
    and "metrics ''Dividend Yield'' =
           Some (if truthy (dict_get info ''dividendYield'' PNone)
                 then dict_get info ''dividendYield'' (PNum 0) else PNum 0)"
    and "metrics ''Payout Ratio'' =
           Some (if truthy (dict_get info ''payoutRatio'' PNone)
                 then dict_get info ''payoutRatio'' (PNum 0) else PNum 0)"
    and "truediv (dict_get info ''marketCap'' (PNum 0)) 1000000000 =
           Inr (the (metrics ''Market Cap (B)''))"
proof -
  from assms obtain cap
    where cap: "truediv (dict_get info ''marketCap'' (PNum 0)) 1000000000 = Inr cap"
    by (auto simp: calculate_metrics_def bind_err_def split: sum.splits)
  have eq: "metrics k = v"
    if "(case calculate_metrics info of Inl e \<Rightarrow> None | Inr d \<Rightarrow> d k) = v" for k v
    using that assms by simp
  have "metrics ''Market Cap (B)'' = Some cap"
    by (rule eq) (simp add: calculate_metrics_def bind_err_def cap)
  with cap show "truediv (dict_get info ''marketCap'' (PNum 0)) 1000000000 =
           Inr (the (metrics ''Market Cap (B)''))"
    by simp
  show "metrics ''Current Price'' = Some (dict_get info ''currentPrice'' (PNum 0))"
    and "metrics ''52 Week High'' = Some (dict_get info ''fiftyTwoWeekHigh'' (PNum 0))"
    and "metrics ''52 Week Low'' = Some (dict_get info ''fiftyTwoWeekLow'' (PNum 0))"
    and "metrics ''P/E Ratio'' = Some (dict_get info ''trailingPE'' (PNum 0))"
    and "metrics ''Forward P/E'' = Some (dict_get info ''forwardPE'' (PNum 0))"
    and "metrics ''PEG Ratio'' = Some (dict_get info ''pegRatio'' (PNum 0))"
    and "metrics ''Price/Book'' = Some (dict_get info ''priceToBook'' (PNum 0))"
    and "metrics ''Price/Sales'' =
           Some (dict_get info ''priceToSalesTrailing12Months'' (PNum 0))"
    and "metrics ''EV/EBITDA'' = Some (dict_get info ''enterpriseToEbitda'' (PNum 0))"
    and "metrics ''Current Ratio'' = Some (dict_get info ''currentRatio'' (PNum 0))"
    and "metrics ''Debt/Equity'' = Some (dict_get info ''debtToEquity'' (PNum 0))"
    and "metrics ''Quick Ratio'' = Some (dict_get info ''quickRatio'' (PNum 0))"
    and "metrics ''Return on Equity'' = Some (dict_get info ''returnOnEquity'' (PNum 0))"
    and "metrics ''Return on Assets'' = Some (dict_get info ''returnOnAssets'' (PNum 0))"
    and "metrics ''Profit Margin'' = Some (dict_get info ''profitMargins'' (PNum 0))"
    and "metrics ''Operating Margin'' = Some (dict_get info ''operatingMargins'' (PNum 0))"
    and "metrics ''Gross Margin'' = Some (dict_get info ''grossMargins'' (PNum 0))"
    and "metrics ''Revenue Growth'' = Some (dict_get info ''revenueGrowth'' (PNum 0))"
    and "metrics ''Earnings Growth'' = Some (dict_get info ''earningsGrowth'' (PNum 0))"
    and "metrics ''Dividend Yield'' =
           Some (if truthy (dict_get info ''dividendYield'' PNone)
                 then dict_get info ''dividendYield'' (PNum 0) else PNum 0)"
    and "metrics ''Payout Ratio'' =
           Some (if truthy (dict_get info ''payoutRatio'' PNone)
                 then dict_get info ''payoutRatio'' (PNum 0) else PNum 0)"
    by (rule eq, simp add: calculate_metrics_def bind_err_def cap)+
qed

lemma calculate_metrics_absent:
  assumes "(name, field) \<in> set metric_fields"
    and "info field = None"
    and "calculate_metrics info = Inr metrics"
  shows "metrics name = Some (PNum 0)"
proof -
  note e = calculate_metrics_entries[OF assms(3)]
  have cap: "metrics ''Market Cap (B)'' = Some (PNum 0)" if "info ''marketCap'' = None"
  proof -
    from that e(22) have "Inr (PNum 0) = Inr (the (metrics ''Market Cap (B)''))"
      by (simp add: dict_get_def)
    moreover have "metrics ''Market Cap (B)'' \<noteq> None"
      using assms(3) by (auto simp: calculate_metrics_def bind_err_def split: sum.splits)
    ultimately show ?thesis by auto
  qed
  have "\<forall>(n, f)\<in>set metric_fields. info f = None \<longrightarrow> metrics n = Some (PNum 0)"
    unfolding metric_fields_def using e(1-21) cap by (simp add: dict_get_def)
  with assms(1,2) show ?thesis by fastforce
qed

lemma calculate_metrics_null_dividend:
  assumes "calculate_metrics info = Inr metrics"
  shows "info ''dividendYield'' = Some PNone \<Longrightarrow> metrics ''Dividend Yield'' = Some (PNum 0)"
    and "info ''payoutRatio'' = Some PNone \<Longrightarrow> metrics ''Payout Ratio'' = Some (PNum 0)"
  using calculate_metrics_entries(20,21)[OF assms] by (simp_all add: dict_get_def)

section \<open>Lemmas on the RSI column\<close>

lemma length_series_diff: "length (series_diff xs) = length xs"
  by (cases xs) (simp_all add: series_diff_def)

lemma length_rolling_mean: "length (rolling_mean w xs) = length xs"
  by (simp add: rolling_mean_def)

lemma length_rsi_gain: "length (rsi_gain closes) = length closes"
  by (simp add: rsi_gain_def length_rolling_mean series_where_def rsi_delta_def
      length_series_diff)

lemma length_rsi_loss: "length (rsi_loss closes) = length closes"
  by (simp add: rsi_loss_def length_rolling_mean series_where_def rsi_delta_def
      length_series_diff)

lemma length_rsi_raw: "length (rsi_raw closes) = length closes"
  by (simp add: rsi_raw_def rsi_rs_def length_rsi_gain length_rsi_loss)

lemma length_bfill: "length (bfill xs) = length xs"
  by (induction xs) simp_all

lemma series_diff_elems:
  assumes "x \<in> set (series_diff xs)"
  shows "x = NaN \<or> (\<exists>d. x = Finite d)"
  using assms by (cases xs) (auto simp: series_diff_def)

lemma gains_nonneg:
  assumes "x \<in> set (series_where (\<lambda>d. fgt d 0) (Finite 0) (series_diff xs))"
  shows "nonneg_finite x"
proof -
  from assms obtain d where d: "d \<in> set (series_diff xs)"
    and x: "x = (if fgt d 0 then d else Finite 0)"
    by (auto simp: series_where_def)
  from series_diff_elems[OF d] x show ?thesis
    by (auto simp: nonneg_finite_def)
qed

lemma losses_nonneg:
  assumes "x \<in> set (map fneg (series_where (\<lambda>d. flt d 0) (Finite 0) (series_diff xs)))"
  shows "nonneg_finite x"
proof -
  from assms obtain d where d: "d \<in> set (series_diff xs)"
    and x: "x = fneg (if flt d 0 then d else Finite 0)"
    by (auto simp: series_where_def)
  from series_diff_elems[OF d] x show ?thesis
    by (auto simp: nonneg_finite_def)
qed

lemma sum_nonneg_finite:
  assumes "\<forall>x\<in>set ws. nonneg_finite x"
  shows "\<exists>s. foldr fadd ws (Finite 0) = Finite s \<and> 0 \<le> s"
  using assms
proof (induction ws)
  case Nil
  then show ?case by simp
next
  case (Cons w ws)
  then obtain s where s: "foldr fadd ws (Finite 0) = Finite s" "0 \<le> s" by auto
  from Cons.prems obtain a where a: "w = Finite a" "0 \<le> a"
    by (cases w) (auto simp: nonneg_finite_def)
  show ?case using s a by simp
qed

lemma window_mean_nonneg:
  assumes "\<forall>x\<in>set ws. nonneg_finite x"
  shows "nonneg_or_nan (window_mean ws)"
proof -
  from sum_nonneg_finite[OF assms] obtain s
    where s: "foldr fadd ws (Finite 0) = Finite s" "0 \<le> s" by blast
  show ?thesis
  proof (cases "ws = []")
    case True
    then show ?thesis by (simp add: window_mean_def nonneg_or_nan_def)
  next
    case False
    then have "(of_nat (length ws) :: rat) > 0" by simp
    with s show ?thesis
      by (simp add: window_mean_def nonneg_or_nan_def)
  qed
qed

lemma rolling_mean_nonneg:
  assumes "\<forall>x\<in>set xs. nonneg_finite x" and "y \<in> set (rolling_mean w xs)"
  shows "nonneg_or_nan y"
proof -
  from assms(2) have
    "\<exists>i. y = (if i + 1 < w then NaN else window_mean (take w (drop (i + 1 - w) xs)))"
    unfolding rolling_mean_def by (simp only: set_map) blast
  then obtain i where
    y: "y = (if i + 1 < w then NaN else window_mean (take w (drop (i + 1 - w) xs)))"
    by blast
  have "\<forall>x\<in>set (take w (drop (i + 1 - w) xs)). nonneg_finite x"
    using assms(1) by (meson in_set_dropD in_set_takeD)
  from window_mean_nonneg[OF this] y show ?thesis
    by (simp add: nonneg_or_nan_def)
qed

lemma rsi_gain_nonneg: "y \<in> set (rsi_gain closes) \<Longrightarrow> nonneg_or_nan y"
  unfolding rsi_gain_def rsi_delta_def
  using gains_nonneg rolling_mean_nonneg by blast

lemma rsi_loss_nonneg: "y \<in> set (rsi_loss closes) \<Longrightarrow> nonneg_or_nan y"
  unfolding rsi_loss_def rsi_delta_def
  using losses_nonneg rolling_mean_nonneg by blast

lemma rsi_of_range:
  assumes "nonneg_or_nan g" and "nonneg_or_nan l"
  shows "percent_or_nan (rsi_of g l)"
proof (cases g)
  case (Finite a)
  note g = this
  show ?thesis
  proof (cases l)
    case (Finite b)
    from assms g Finite have ab: "0 \<le> a" "0 \<le> b" by (simp_all add: nonneg_or_nan_def)
    show ?thesis
    proof (cases "b = 0")
      case True
      with g Finite ab show ?thesis
        by (simp add: rsi_of_def fsub_def percent_or_nan_def)
    next
      case False
      with ab have q: "0 \<le> a / b" by simp
      then have pos: "0 < 1 + a / b" by simp
      have le: "100 / (1 + a / b) \<le> 100"
        using q by (simp add: divide_le_eq)
      have ge: "0 \<le> 100 / (1 + a / b)" using pos by simp
      from pos have ne: "1 + a / b \<noteq> 0" by simp
      show ?thesis
        using g Finite False ne le ge
        by (simp add: rsi_of_def fsub_def percent_or_nan_def)
    qed
  qed (use assms g in \<open>simp_all add: nonneg_or_nan_def rsi_of_def fsub_def percent_or_nan_def\<close>)
qed (use assms in \<open>simp_all add: nonneg_or_nan_def rsi_of_def fsub_def percent_or_nan_def\<close>)

lemma rsi_of_zero_loss:
  assumes "0 \<le> g"
  shows "rsi_of (Finite g) (Finite 0) = (if g = 0 then NaN else Finite 100)"
  using assms by (simp add: rsi_of_def fsub_def)

lemma rsi_raw_alt: "rsi_raw closes = map (\<lambda>(g, l). rsi_of g l) (zip (rsi_gain closes) (rsi_loss closes))"
  by (simp add: rsi_raw_def rsi_rs_def rsi_of_def case_prod_unfold)

lemma rsi_raw_nth:
  assumes "i < length closes"
  shows "rsi_raw closes ! i = rsi_of (rsi_gain closes ! i) (rsi_loss closes ! i)"
  using assms by (simp add: rsi_raw_alt length_rsi_gain length_rsi_loss)

lemma rsi_raw_range:
  assumes "v \<in> set (rsi_raw closes)"
  shows "percent_or_nan v"
proof -
  from assms obtain g l where gl: "(g, l) \<in> set (zip (rsi_gain closes) (rsi_loss closes))"
    and v: "v = rsi_of g l"
    by (auto simp: rsi_raw_alt)
  from gl have "g \<in> set (rsi_gain closes)" "l \<in> set (rsi_loss closes)"
    by (auto dest: set_zip_leftD set_zip_rightD)
  then show ?thesis
    using v rsi_of_range rsi_gain_nonneg rsi_loss_nonneg by blast
qed

lemma set_bfill: "set (bfill xs) \<subseteq> insert NaN (set xs)"
proof (induction xs)
  case Nil
  then show ?case by simp
next
  case (Cons x xs)
  then show ?case by (cases "bfill xs") auto
qed

lemma bfill_keeps:
  assumes "i < length xs" and "xs ! i \<noteq> NaN"
  shows "bfill xs ! i = xs ! i"
  using assms
proof (induction xs arbitrary: i)
  case Nil
  then show ?case by simp
next
  case (Cons x xs)
  then show ?case by (cases i) simp_all
qed

section \<open>The properties\<close>

text \<open>
  C1. On the mapping of the full-pass example every one of the twelve criteria awards
  its point: the score is 12, all twelve reasons are listed and there is no concern.
\<close>

theorem full_pass_example:
  "evaluate_stock full_pass_metrics =
     Inr (12, 12,
       [''P/E ratio is reasonable (< 25)'',
        ''PEG ratio indicates good value (< 1.5)'',
        ''Price/Book ratio is attractive (< 3)'',
        ''EV/EBITDA indicates reasonable valuation (< 15)'',
        ''Strong current ratio (> 1.5)'',
        ''Low debt-to-equity ratio (< 1)'',
        ''Strong Return on Equity (> 15%)'',
        ''Good Return on Assets (> 7%)'',
        ''Healthy operating margin (> 15%)'',
        ''Strong revenue growth (> 10%)'',
        ''Strong earnings growth (> 10%)'',
        ''Sustainable dividend with good yield (> 2%)''],
       [])"
  by (simp add: evaluate_stock_def check_defs full_pass_metrics_def float_defs getitem_def
      between_def gt_lit_def bind_err_def max_score_def)

text \<open>
  C2. On the mapping of the full-pass example with P/E Ratio 40, Current Ratio 0.8 and
  Debt/Equity 2.5 the score is 9: the three changed criteria award nothing (their
  reasons are missing from the list) and each appends its concern, three in all.
\<close>

theorem three_concern_example:
  "evaluate_stock three_concern_metrics =
     Inr (9, 12,
       [''PEG ratio indicates good value (< 1.5)'',
        ''Price/Book ratio is attractive (< 3)'',
        ''EV/EBITDA indicates reasonable valuation (< 15)'',
        ''Strong Return on Equity (> 15%)'',
        ''Good Return on Assets (> 7%)'',
        ''Healthy operating margin (> 15%)'',
        ''Strong revenue growth (> 10%)'',
        ''Strong earnings growth (> 10%)'',
        ''Sustainable dividend with good yield (> 2%)''],
       [''High P/E ratio indicates potential overvaluation'',
        ''Low current ratio indicates potential liquidity issues'',
        ''High debt levels relative to equity''])"
  by (simp add: evaluate_stock_def check_defs three_concern_metrics_def
      full_pass_metrics_def float_defs getitem_def between_def gt_lit_def bind_err_def max_score_def)

text \<open>
  C3, as stated, fails. The extractor turns an empty profile into a mapping whose
  entries are all 0, and on it the scorer does not return score 0 with empty lists.
\<close>

theorem all_zero_counterexample:
  "calculate_metrics Map.empty = Inr zero_metrics \<and>
   evaluate_stock zero_metrics \<noteq> Inr (0, 12, [], [])"
  by (simp add: calculate_metrics_empty evaluate_stock_def check_defs zero_metrics_def
      float_defs getitem_def between_def gt_lit_def bind_err_def max_score_def)

text \<open>
  C3, amended. When every entry the scorer reads is 0 (as in the mapping the extractor
  builds from an empty profile), \<^verbatim>\<open>evaluate_stock\<close> returns score 1 of 12, the single
  reason of the debt-to-equity criterion (\<^verbatim>\<open>0 < 1\<close>) and the single concern of the
  current-ratio criterion (\<^verbatim>\<open>0 < 1\<close>).
\<close>

theorem all_zero_evaluation:
  assumes "all_zero m"
  shows "evaluate_stock m =
           Inr (1, 12, [''Low debt-to-equity ratio (< 1)''],
                [''Low current ratio indicates potential liquidity issues''])"
proof -
  from assms have z: "m ''P/E Ratio'' = Some (PNum 0)" "m ''PEG Ratio'' = Some (PNum 0)"
    "m ''Price/Book'' = Some (PNum 0)" "m ''EV/EBITDA'' = Some (PNum 0)"
    "m ''Current Ratio'' = Some (PNum 0)" "m ''Debt/Equity'' = Some (PNum 0)"
    "m ''Return on Equity'' = Some (PNum 0)" "m ''Return on Assets'' = Some (PNum 0)"
    "m ''Operating Margin'' = Some (PNum 0)" "m ''Revenue Growth'' = Some (PNum 0)"
    "m ''Earnings Growth'' = Some (PNum 0)" "m ''Dividend Yield'' = Some (PNum 0)"
    by (simp_all add: all_zero_def scorer_keys_def)
  show ?thesis
    by (simp add: evaluate_stock_def check_defs z float_defs getitem_def between_def
        gt_lit_def bind_err_def max_score_def)
qed

theorem all_zero_evaluation_witness:
  "calculate_metrics Map.empty = Inr zero_metrics \<and> all_zero zero_metrics \<and>
   evaluate_stock zero_metrics =
     Inr (1, 12, [''Low debt-to-equity ratio (< 1)''],
          [''Low current ratio indicates potential liquidity issues''])"
proof -
  have h: "all_zero zero_metrics"
    by (simp add: all_zero_def scorer_keys_def zero_metrics_def)
  show ?thesis using h all_zero_evaluation[OF h] calculate_metrics_empty by simp
qed

text \<open>
  C4. The claim holds for an absent field, and for a null dividend yield or payout
  ratio, which the source guards with \<^verbatim>\<open>if info.get(...) else 0\<close>. The other twenty
  entries have no such guard: a null \<^verbatim>\<open>trailingPE\<close> is stored as \<^verbatim>\<open>None\<close> under
  \<^verbatim>\<open>'P/E Ratio'\<close> (and the scorer then raises \<^verbatim>\<open>TypeError\<close> on it), and a null
  \<^verbatim>\<open>marketCap\<close> makes the extractor itself raise \<^verbatim>\<open>TypeError\<close>.
\<close>

theorem null_field_not_defaulted:
  "bind_err (calculate_metrics null_pe_profile) (\<lambda>metrics. getitem metrics ''P/E Ratio'')
     = Inr PNone \<and>
   bind_err (calculate_metrics null_pe_profile) evaluate_stock = Inl TypeError \<and>
   calculate_metrics null_cap_profile = Inl TypeError"
  by (simp add: calculate_metrics_def dict_get_def bind_err_def null_pe_profile_def
      null_cap_profile_def getitem_def evaluate_stock_def check_pe_ratio_def between_def)

text \<open>
  C5, as stated, fails: the debt-to-equity criterion appends a concern too. On the
  full-pass mapping with Debt/Equity 2.5 the P/E and current-ratio criteria award
  their points, and the concerns list is not empty.
\<close>

theorem high_debt_counterexample:
  "evaluate_stock high_debt_metrics =
     Inr (11, 12,
       [''P/E ratio is reasonable (< 25)'',
        ''PEG ratio indicates good value (< 1.5)'',
        ''Price/Book ratio is attractive (< 3)'',
        ''EV/EBITDA indicates reasonable valuation (< 15)'',
        ''Strong current ratio (> 1.5)'',
        ''Strong Return on Equity (> 15%)'',
        ''Good Return on Assets (> 7%)'',
        ''Healthy operating margin (> 15%)'',
        ''Strong revenue growth (> 10%)'',
        ''Strong earnings growth (> 10%)'',
        ''Sustainable dividend with good yield (> 2%)''],
       [''High debt levels relative to equity''])"
  by (simp add: evaluate_stock_def check_defs high_debt_metrics_def
      full_pass_metrics_def float_defs getitem_def between_def gt_lit_def bind_err_def max_score_def)

text \<open>
  C5, amended. Exactly three criteria have a concern threshold beside their reason
  threshold: P/E Ratio (above 35), Current Ratio (below 1) and Debt/Equity (above 2).
  The concerns list of every run is made of these three entries, each present exactly
  when its threshold is crossed, so no other criterion appends a concern. The reason of
  each of the three is in the reasons list exactly when its reason threshold is met; no
  run lists both the reason and the concern of one criterion, and no value meets both
  thresholds of one criterion.
\<close>

theorem concern_thresholds:
  assumes "evaluate_stock m = Inr (sc, mx, rs, cs)"
    and "m ''P/E Ratio'' = Some pe"
    and "m ''Current Ratio'' = Some cr"
    and "m ''Debt/Equity'' = Some de"
  shows "cs =
           (if gt_lit pe 35 = Inr True
            then [''High P/E ratio indicates potential overvaluation''] else []) @
           (if lt_lit cr 1 = Inr True
            then [''Low current ratio indicates potential liquidity issues''] else []) @
           (if gt_lit de 2 = Inr True
            then [''High debt levels relative to equity''] else [])
       \<and> (''P/E ratio is reasonable (< 25)'' \<in> set rs \<longleftrightarrow> between 0 pe 25 = Inr True)
       \<and> (''Strong current ratio (> 1.5)'' \<in> set rs \<longleftrightarrow> gt_lit cr 1.5 = Inr True)
       \<and> (''Low debt-to-equity ratio (< 1)'' \<in> set rs \<longleftrightarrow> lt_lit de 1 = Inr True)
       \<and> \<not> (''P/E ratio is reasonable (< 25)'' \<in> set rs \<and>
              ''High P/E ratio indicates potential overvaluation'' \<in> set cs)
       \<and> \<not> (''Strong current ratio (> 1.5)'' \<in> set rs \<and>
              ''Low current ratio indicates potential liquidity issues'' \<in> set cs)
       \<and> \<not> (''Low debt-to-equity ratio (< 1)'' \<in> set rs \<and>
              ''High debt levels relative to equity'' \<in> set cs)
       \<and> \<not> (between 0 pe 25 = Inr True \<and> gt_lit pe 35 = Inr True)
       \<and> \<not> (gt_lit cr 1.5 = Inr True \<and> lt_lit cr 1 = Inr True)
       \<and> \<not> (lt_lit de 1 = Inr True \<and> gt_lit de 2 = Inr True)"
proof -
  note cs = three_concerns_of_run[OF assms]
  note r = three_reasons_of_run[OF assms]
  note d = thresholds_disjoint(1)[of pe] thresholds_disjoint(2)[of cr]
    thresholds_disjoint(3)[of de]
  have c1: "''High P/E ratio indicates potential overvaluation'' \<in> set cs
      \<longleftrightarrow> gt_lit pe 35 = Inr True"
    by (subst cs) simp
  have c2: "''Low current ratio indicates potential liquidity issues'' \<in> set cs
      \<longleftrightarrow> lt_lit cr 1 = Inr True"
    by (subst cs) simp
  have c3: "''High debt levels relative to equity'' \<in> set cs
      \<longleftrightarrow> gt_lit de 2 = Inr True"
    by (subst cs) simp
  have n1: "\<not> (''P/E ratio is reasonable (< 25)'' \<in> set rs \<and>
              ''High P/E ratio indicates potential overvaluation'' \<in> set cs)"
    using r(1) c1 d(1) by blast
  have n2: "\<not> (''Strong current ratio (> 1.5)'' \<in> set rs \<and>
              ''Low current ratio indicates potential liquidity issues'' \<in> set cs)"
    using r(2) c2 d(2) by blast
  have n3: "\<not> (''Low debt-to-equity ratio (< 1)'' \<in> set rs \<and>
              ''High debt levels relative to equity'' \<in> set cs)"
    using r(3) c3 d(3) by blast
  show ?thesis
    using cs r n1 n2 n3 d by (intro conjI)
qed

theorem concern_thresholds_witness:
  "evaluate_stock three_concern_metrics =
     Inr (9, 12,
       [''PEG ratio indicates good value (< 1.5)'',
        ''Price/Book ratio is attractive (< 3)'',
        ''EV/EBITDA indicates reasonable valuation (< 15)'',
        ''Strong Return on Equity (> 15%)'',
        ''Good Return on Assets (> 7%)'',
        ''Healthy operating margin (> 15%)'',
        ''Strong revenue growth (> 10%)'',
        ''Strong earnings growth (> 10%)'',
        ''Sustainable dividend with good yield (> 2%)''],
       concern_texts) \<and>
   three_concern_metrics ''P/E Ratio'' = Some (PNum 40) \<and>
   three_concern_metrics ''Current Ratio'' = Some (PNum float_0_8) \<and>
   three_concern_metrics ''Debt/Equity'' = Some (PNum 2.5) \<and>
   gt_lit (PNum 40) 35 = Inr True \<and> lt_lit (PNum float_0_8) 1 = Inr True \<and>
   gt_lit (PNum 2.5) 2 = Inr True \<and>
   between 0 (PNum 40) 25 = Inr False \<and> gt_lit (PNum float_0_8) 1.5 = Inr False \<and>
   lt_lit (PNum 2.5) 1 = Inr False"
proof -
  have run: "evaluate_stock three_concern_metrics =
     Inr (9, 12,
       [''PEG ratio indicates good value (< 1.5)'',
        ''Price/Book ratio is attractive (< 3)'',
        ''EV/EBITDA indicates reasonable valuation (< 15)'',
        ''Strong Return on Equity (> 15%)'',
        ''Good Return on Assets (> 7%)'',
        ''Healthy operating margin (> 15%)'',
        ''Strong revenue growth (> 10%)'',
        ''Strong earnings growth (> 10%)'',
        ''Sustainable dividend with good yield (> 2%)''],
       concern_texts)"
    by (simp add: evaluate_stock_def check_defs three_concern_metrics_def
        full_pass_metrics_def float_defs getitem_def between_def gt_lit_def bind_err_def
        max_score_def concern_texts_def)
  have pe: "three_concern_metrics ''P/E Ratio'' = Some (PNum 40)"
    and cr: "three_concern_metrics ''Current Ratio'' = Some (PNum float_0_8)"
    and de: "three_concern_metrics ''Debt/Equity'' = Some (PNum 2.5)"
    by (simp_all add: three_concern_metrics_def)
  show ?thesis
    using run pe cr de concern_thresholds[OF run pe cr de]
    by (simp add: gt_lit_def between_def bind_err_def float_defs)
qed

text \<open>
  C6. For every metrics mapping in which the thirteen keys read by the scorer hold
  numbers, \<^verbatim>\<open>evaluate_stock\<close> returns, the score it returns lies between 0 and 12,
  and the \<^verbatim>\<open>max_score\<close> it returns is 12.
\<close>

theorem score_within_bounds:
  assumes "numeric_metrics m"
  shows "\<exists>sc rs cs. evaluate_stock m = Inr (sc, 12, rs, cs) \<and> 0 \<le> sc \<and> sc \<le> 12"
proof -
  from evaluate_stock_total[OF assms] obtain sc mx rs cs
    where r: "evaluate_stock m = Inr (sc, mx, rs, cs)"
    by (metis prod_cases4)
  from evaluate_stock_consistent[OF r]
  have mx: "mx = 12" and sc: "sc = int (length rs)" and sub: "subseq rs reason_texts"
    by simp_all
  from sub have "length rs \<le> length reason_texts" by (rule list_emb_length)
  then have "length rs \<le> 12" by (simp add: reason_texts_def)
  with sc have "0 \<le> sc \<and> sc \<le> 12" by simp
  with r mx show ?thesis by blast
qed

theorem score_within_bounds_witness:
  "numeric_metrics full_pass_metrics \<and>
   (\<exists>sc rs cs. evaluate_stock full_pass_metrics = Inr (sc, 12, rs, cs) \<and> 0 \<le> sc \<and> sc \<le> 12)"
proof -
  have h: "numeric_metrics full_pass_metrics"
    by (simp add: numeric_metrics_def scorer_keys_def full_pass_metrics_def)
  show ?thesis using h score_within_bounds[OF h] by simp
qed

text \<open>
  C7. The scorer is a function of the thirteen entries it reads: two mappings that
  agree on them give the same score, maximum, reasons and concerns. The reasons are a
  subsequence of the twelve reason texts in the order of the criteria, and the concerns
  a subsequence of the three concern texts in that order; the texts are pairwise
  different, so the order of a result is the order of the criteria.
\<close>

theorem scorer_deterministic_ordered:
  assumes "numeric_metrics m" and "same_inputs m m'"
  shows "\<exists>sc rs cs. evaluate_stock m = Inr (sc, 12, rs, cs) \<and>
           evaluate_stock m' = Inr (sc, 12, rs, cs) \<and>
           subseq rs reason_texts \<and> subseq cs concern_texts \<and>
           distinct reason_texts \<and> distinct concern_texts"
proof -
  from evaluate_stock_total[OF assms(1)] obtain sc mx rs cs
    where r: "evaluate_stock m = Inr (sc, mx, rs, cs)"
    by (metis prod_cases4)
  from evaluate_stock_consistent[OF r]
  have mx: "mx = 12" and sub: "subseq rs reason_texts" "subseq cs concern_texts"
    by simp_all
  have d: "distinct reason_texts" "distinct concern_texts"
    by (simp_all add: reason_texts_def concern_texts_def)
  from r mx evaluate_stock_cong[OF assms(2)]
  have "evaluate_stock m = Inr (sc, 12, rs, cs)" "evaluate_stock m' = Inr (sc, 12, rs, cs)"
    by simp_all
  with sub d show ?thesis by blast
qed

theorem scorer_deterministic_ordered_witness:
  "numeric_metrics three_concern_metrics \<and>
   same_inputs three_concern_metrics (three_concern_metrics(''Quick Ratio'' \<mapsto> PNum 1)) \<and>
   (\<exists>sc rs cs. evaluate_stock three_concern_metrics = Inr (sc, 12, rs, cs) \<and>
      evaluate_stock (three_concern_metrics(''Quick Ratio'' \<mapsto> PNum 1)) = Inr (sc, 12, rs, cs) \<and>
      subseq rs reason_texts \<and> subseq cs concern_texts \<and>
      distinct reason_texts \<and> distinct concern_texts)"
proof -
  have h1: "numeric_metrics three_concern_metrics"
    by (simp add: numeric_metrics_def scorer_keys_def three_concern_metrics_def
        full_pass_metrics_def)
  have h2: "same_inputs three_concern_metrics (three_concern_metrics(''Quick Ratio'' \<mapsto> PNum 1))"
    by (simp add: same_inputs_def scorer_keys_def)
  show ?thesis using h1 h2 scorer_deterministic_ordered[OF h1 h2] by simp
qed

text \<open>
  C8. When the provider answers the profile request and returns an empty price history,
  \<^verbatim>\<open>get_stock_data\<close> raises the \<^verbatim>\<open>ValueError\<close> ``No historical data found for ...''
  to its caller, after showing it with \<^verbatim>\<open>st.error\<close>. The result is the same for
  every indicator calculator, also one that would raise: the calculator's answer is
  not consulted. Nothing is returned, so the caller has no profile to extract metrics
  from and nothing to score.
\<close>

theorem no_history_fails_fast:
  assumes "stock_info (yf_Ticker ticker) = Inr info"
    and "stock_history (yf_Ticker ticker) = Inr []"
  shows "get_stock_data yf_Ticker indicators ticker shown =
           (Inl (ValueError (''No historical data found for '' @ ticker)),
            shown @ [''Error fetching data for '' @ ticker @
                      '': No historical data found for '' @ ticker])"
  using assms by (simp add: get_stock_data_def bind_err_def Let_def)

theorem no_history_fails_fast_witness:
  "stock_info (no_history_ticker ''NODATA'') = Inr Map.empty \<and>
   stock_history (no_history_ticker ''NODATA'') = Inr [] \<and>
   get_stock_data no_history_ticker (\<lambda>hist. Inl (OtherException ''indicators'')) ''NODATA'' []
     = (Inl (ValueError ''No historical data found for NODATA''),
        [''Error fetching data for NODATA: No historical data found for NODATA''])"
proof -
  have h1: "stock_info (no_history_ticker ''NODATA'') = Inr Map.empty"
    and h2: "stock_history (no_history_ticker ''NODATA'') = Inr []"
    by (simp_all add: no_history_ticker_def)
  show ?thesis
    using h1 h2
      no_history_fails_fast[where yf_Ticker = no_history_ticker and ticker = "''NODATA''"
        and indicators = "\<lambda>hist. Inl (OtherException ''indicators'')" and shown = "[]",
        OF h1 h2]
    by simp
qed

text \<open>
  C9, as stated, fails. In a window without any price change the average loss is zero
  and so is the average gain; the RSI computed is NaN, not a saturation value, and on a
  series that never changes the back-fill finds nothing to replace it with.
\<close>

theorem flat_window_rsi_undefined:
  "rsi_loss flat_closes ! 14 = Finite 0 \<and> rsi_gain flat_closes ! 14 = Finite 0 \<and>
   rsi_raw flat_closes ! 14 = NaN \<and> rsi_column flat_closes ! 14 = NaN"
  by code_simp

text \<open>
  C9, amended. For every series of finite closing prices, every value of the RSI
  column, before and after the back-fill, is either NaN or a number between 0 and 100.
  In a row where the 14-period average loss is zero, the average gain is not negative;
  when it is positive the RSI is exactly 100, before and after the back-fill, and when
  it is zero the RSI computed is NaN. No case raises an error.
\<close>

theorem rsi_range_and_zero_loss:
  "(\<forall>v\<in>set (rsi_raw closes) \<union> set (rsi_column closes).
      v = NaN \<or> (\<exists>r. v = Finite r \<and> 0 \<le> r \<and> r \<le> 100)) \<and>
   (\<forall>i g. i < length closes \<and> rsi_loss closes ! i = Finite 0 \<and>
      rsi_gain closes ! i = Finite g \<longrightarrow>
      0 \<le> g \<and>
      rsi_raw closes ! i = (if g = 0 then NaN else Finite 100) \<and>
      (g \<noteq> 0 \<longrightarrow> rsi_column closes ! i = Finite 100))"
proof (intro conjI ballI allI impI)
  fix v
  assume "v \<in> set (rsi_raw closes) \<union> set (rsi_column closes)"
  then have "v = NaN \<or> v \<in> set (rsi_raw closes)"
    using set_bfill[of "rsi_raw closes"] by (auto simp: rsi_column_def)
  then have "percent_or_nan v"
    using rsi_raw_range by (auto simp: percent_or_nan_def)
  then show "v = NaN \<or> (\<exists>r. v = Finite r \<and> 0 \<le> r \<and> r \<le> 100)"
    by (cases v) (simp_all add: percent_or_nan_def)
next
  fix i g
  assume a: "i < length closes \<and> rsi_loss closes ! i = Finite 0 \<and>
    rsi_gain closes ! i = Finite g"
  then have "rsi_gain closes ! i \<in> set (rsi_gain closes)"
    by (intro nth_mem) (simp add: length_rsi_gain)
  from rsi_gain_nonneg[OF this] a show g: "0 \<le> g"
    by (simp add: nonneg_or_nan_def)
  from a have "rsi_raw closes ! i = rsi_of (Finite g) (Finite 0)"
    by (simp add: rsi_raw_nth)
  with g show raw: "rsi_raw closes ! i = (if g = 0 then NaN else Finite 100)"
    by (simp add: rsi_of_zero_loss)
  show "rsi_column closes ! i = Finite 100" if "g \<noteq> 0"
  proof -
    from raw that have r: "rsi_raw closes ! i = Finite 100" by simp
    have "bfill (rsi_raw closes) ! i = rsi_raw closes ! i"
      using a r by (intro bfill_keeps) (simp_all add: length_rsi_raw)
    with r show ?thesis by (simp add: rsi_column_def)
  qed
qed

theorem rsi_range_and_zero_loss_witness:
  "14 < length rising_closes \<and> rsi_loss rising_closes ! 14 = Finite 0 \<and>
   rsi_gain rising_closes ! 14 = Finite 1 \<and>
   rsi_raw rising_closes ! 14 = Finite 100 \<and> rsi_column rising_closes ! 14 = Finite 100 \<and>
   14 < length flat_closes \<and> rsi_loss flat_closes ! 14 = Finite 0 \<and>
   rsi_gain flat_closes ! 14 = Finite 0 \<and> rsi_raw flat_closes ! 14 = NaN \<and>
   rsi_column mixed_closes ! 15 = Finite (1200 / 19)"
proof -
  have up: "14 < length rising_closes \<and> rsi_loss rising_closes ! 14 = Finite 0 \<and>
      rsi_gain rising_closes ! 14 = Finite 1"
    by code_simp
  have flat: "14 < length flat_closes \<and> rsi_loss flat_closes ! 14 = Finite 0 \<and>
      rsi_gain flat_closes ! 14 = Finite 0"
    by code_simp
  have mixed: "rsi_column mixed_closes ! 15 = Finite (1200 / 19)"
    by code_simp
  from rsi_range_and_zero_loss[of rising_closes] up
  have "rsi_raw rising_closes ! 14 = (if (1::rat) = 0 then NaN else Finite 100) \<and>
      ((1::rat) \<noteq> 0 \<longrightarrow> rsi_column rising_closes ! 14 = Finite 100)"
    by blast
  moreover from rsi_range_and_zero_loss[of flat_closes] flat
  have "rsi_raw flat_closes ! 14 = (if (0::rat) = 0 then NaN else Finite 100)"
    by blast
  ultimately show ?thesis using up flat mixed by simp
qed

text \<open>
  C10. For every metrics mapping in which the thirteen keys read by the scorer hold
  numbers, the score returned equals the number of reasons returned.
\<close>

theorem score_counts_reasons:
  assumes "numeric_metrics m"
  shows "\<exists>sc mx rs cs. evaluate_stock m = Inr (sc, mx, rs, cs) \<and> sc = int (length rs)"
proof -
  from evaluate_stock_total[OF assms] obtain sc mx rs cs
    where r: "evaluate_stock m = Inr (sc, mx, rs, cs)"
    by (metis prod_cases4)
  from evaluate_stock_consistent[OF r] have "sc = int (length rs)" by simp
  with r show ?thesis by blast
qed

theorem score_counts_reasons_witness:
  "numeric_metrics high_debt_metrics \<and>
   (\<exists>sc mx rs cs. evaluate_stock high_debt_metrics = Inr (sc, mx, rs, cs) \<and>
      sc = int (length rs))"
proof -
  have h: "numeric_metrics high_debt_metrics"
    by (simp add: numeric_metrics_def scorer_keys_def high_debt_metrics_def
        full_pass_metrics_def)
  show ?thesis using h score_counts_reasons[OF h] by simp
qed

end
